theory Spec2Isabelle
  imports Complex_Main
begin

section \<open>Variational-Bayes Gaussian mixture inference (pypmc/cluster/variational.py)\<close>

text \<open>
  A shallow embedding of the classes \<^verbatim>\<open>GaussianInference\<close> and \<^verbatim>\<open>VBMerge\<close>.
  Floating-point numbers are idealised as \<^typ>\<open>real\<close>: comparisons, sums and products
  are exact, there is no NaN and no overflow.  Arrays are nested lists; an array object
  also carries the lengths of its trailing axes, so that its shape is defined when an
  axis is empty.
\<close>

subsection \<open>Arrays, Python values and errors\<close>

type_synonym vec = "real list"
type_synonym mat = "real list list"
type_synonym tensor = "real list list list"

datatype ndarray =
    A0 real
  | A1 vec
  | A2 nat mat
  | A3 nat nat tensor

fun shape :: "ndarray \<Rightarrow> nat list" where
  "shape (A0 x) = []"
| "shape (A1 v) = [length v]"
| "shape (A2 d rows) = [length rows, d]"
| "shape (A3 d1 d2 ms) = [length ms, d1, d2]"

text \<open>What a keyword argument for a scalar-or-vector hyperparameter can be: a Python
  number, a Python list of numbers, or a numpy array.\<close>

datatype pyval = PyFloat real | PyList vec | NDArray ndarray

text \<open>Every \<^verbatim>\<open>raise\<close> and failing \<^verbatim>\<open>assert\<close> of the source is a value.  The constructors of
  the formatted \<^verbatim>\<open>ValueError\<close>s keep the arguments of the format string:
  \<^item> \<open>NotAVector name shape\<close>: \<^verbatim>\<open>'%s is not a vector but has shape %s'\<close>;
  \<^item> \<open>LenMismatch name len K\<close>: \<^verbatim>\<open>'len(%s)=%d does not match K=%d'\<close>;
  \<^item> \<open>NotExceeding name min v\<close>: \<^verbatim>\<open>'All elements of %s must exceed %g. %s=%s'\<close>;
  \<^item> \<open>ShapeMismatch name shape expected\<close>: \<^verbatim>\<open>'Shape of %s %s does not match (K,d)=%s'\<close>
    and its \<^verbatim>\<open>(K, d, d)\<close> sibling;
  \<^item> \<open>W0Shape\<close>: \<^verbatim>\<open>'W0 is neither None, nor a %s array, nor a %s array.'\<close>.
  The others are raised by Python or numpy themselves.\<close>

datatype error =
    NotAVector string "nat list"
  | LenMismatch string nat nat
  | NotExceeding string real vec
  | ShapeMismatch string "nat list" "nat list"
  | W0Shape "nat list" "nat list"
  | ValueError string
  | TypeError string
  | AttributeError string
  | AssertionError string
  | IndexError
  | LinAlgError
  | UnboundLocalError string

definition bnd :: "error + 'a \<Rightarrow> ('a \<Rightarrow> error + 'b) \<Rightarrow> error + 'b" where
  "bnd x f = (case x of Inl e \<Rightarrow> Inl e | Inr a \<Rightarrow> f a)"

text \<open>The primitives of numpy, scipy and the repository's \<^verbatim>\<open>tools._regularize\<close> that the
  engine calls.  They are parameters of the model.  \<open>linalg_inv\<close> is \<open>None\<close> where
  \<^verbatim>\<open>numpy.linalg.inv\<close> raises \<^verbatim>\<open>LinAlgError\<close>; \<open>np_pi\<close> is \<^verbatim>\<open>_np.pi\<close>; \<open>tiny\<close> is the value that
  \<^verbatim>\<open>regularize\<close> writes over zeros.\<close>

record numlib =
  np_pi :: real
  np_exp :: "real \<Rightarrow> real"
  np_log :: "real \<Rightarrow> real"
  digamma :: "real \<Rightarrow> real"
  gammaln :: "real \<Rightarrow> real"
  linalg_det :: "mat \<Rightarrow> real"
  linalg_inv :: "mat \<Rightarrow> mat option"
  tiny :: real

subsection \<open>The inference object\<close>

datatype variant = Raw | Weighted | Merge

text \<open>The attributes of a \<^verbatim>\<open>GaussianInference\<close> or \<^verbatim>\<open>VBMerge\<close> instance.  \<open>W0\<close> and
  \<open>W\<close> are references into \<open>heap\<close>, a store of array objects addressed by position: the
  source keeps the caller's own arrays for them, and writes \<open>W\<close> in place.  Every other
  array attribute is allocated by the object itself (\<^verbatim>\<open>_np.array\<close> copies, arithmetic
  results), so it is held by value.  \<open>variant\<close> records which update formulae the
  constructor selected; \<open>mu\<close>, \<open>sigma\<close> (means and covariances of the input components)
  and \<open>Nomega\<close> belong to \<^verbatim>\<open>VBMerge\<close>.\<close>

record vb =
  heap :: "ndarray list"
  variant :: variant
  data :: mat
  weights :: vec
  L :: nat
  mu :: mat
  sigma :: tensor
  Nomega :: vec
  K :: nat
  N :: nat
  dim :: nat
  alpha0 :: vec
  alpha :: vec
  beta0 :: vec
  beta :: vec
  nu0 :: vec
  nu :: vec
  m0 :: mat
  m :: mat
  W0 :: nat
  inv_W0 :: tensor
  W :: nat
  x_mean_comp :: mat
  N_comp :: vec
  inv_N_comp :: vec
  S :: tensor
  expectation_gauss_exponent :: mat
  expectation_det_ln_lambda :: vec
  expectation_ln_pi :: vec
  log_rho :: mat
  r :: mat

fun tensor_of :: "ndarray \<Rightarrow> tensor" where
  "tensor_of (A3 d1 d2 ms) = ms"
| "tensor_of a = []"

definition W_arr :: "vb \<Rightarrow> tensor" where
  "W_arr s = tensor_of (heap s ! W s)"

definition W0_arr :: "vb \<Rightarrow> tensor" where
  "W0_arr s = tensor_of (heap s ! W0 s)"

subsection \<open>Parameter validation: \<^verbatim>\<open>_check_K_vector\<close>\<close>

text \<open>\<^verbatim>\<open>v.shape\<close> exists on arrays only.\<close>

fun check_K_vector :: "nat \<Rightarrow> string \<Rightarrow> pyval \<Rightarrow> real \<Rightarrow> error + unit" where
  "check_K_vector k name (PyFloat x) mn = Inl (AttributeError ''shape'')"
| "check_K_vector k name (PyList xs) mn = Inl (AttributeError ''shape'')"
| "check_K_vector k name (NDArray (A1 v)) mn =
     (if length v \<noteq> k then Inl (LenMismatch name (length v) k)
      else if \<not> list_all (\<lambda>x. x > mn) v then Inl (NotExceeding name mn v)
      else Inr ())"
| "check_K_vector k name (NDArray a) mn = Inl (NotAVector name (shape a))"

subsection \<open>\<^verbatim>\<open>set_variational_parameters\<close>\<close>

record kwargs =
  kw_alpha0 :: "pyval option"
  kw_alpha :: "pyval option"
  kw_beta0 :: "pyval option"
  kw_beta :: "pyval option"
  kw_nu0 :: "pyval option"
  kw_nu :: "pyval option"
  kw_m0 :: "ndarray option"
  kw_m :: "ndarray option"
  kw_W0 :: "nat option"
  kw_W :: "nat option"
  kw_other :: "string list"

text \<open>\<^verbatim>\<open>_np.iterable\<close>: numbers and 0-d arrays are not iterable.\<close>

fun np_iterable :: "pyval \<Rightarrow> bool" where
  "np_iterable (PyFloat x) = False"
| "np_iterable (NDArray (A0 x)) = False"
| "np_iterable v = True"

text \<open>\<^verbatim>\<open>x * _np.ones(K)\<close>, reached for a number or a 0-d array \<open>x\<close> only.\<close>

fun times_ones :: "pyval \<Rightarrow> nat \<Rightarrow> pyval" where
  "times_ones (PyFloat x) k = NDArray (A1 (replicate k x))"
| "times_ones (NDArray (A0 x)) k = NDArray (A1 (replicate k x))"
| "times_ones v k = v"

fun np_array :: "pyval \<Rightarrow> pyval" where
  "np_array (PyFloat x) = NDArray (A0 x)"
| "np_array (PyList xs) = NDArray (A1 xs)"
| "np_array (NDArray a) = NDArray a"

fun vec_of :: "pyval \<Rightarrow> vec" where
  "vec_of (NDArray (A1 v)) = v"
| "vec_of (PyList xs) = xs"
| "vec_of v = []"

text \<open>The prior of a scalar-or-vector parameter: \<^verbatim>\<open>kwargs.pop(name, default)\<close>, promotion
  of a non-iterable value, then the check.\<close>

definition set_prior :: "nat \<Rightarrow> string \<Rightarrow> pyval option \<Rightarrow> real \<Rightarrow> real \<Rightarrow> error + vec" where
  "set_prior k name arg dflt mn =
     (let v0 = (case arg of None \<Rightarrow> PyFloat dflt | Some v \<Rightarrow> v);
          v1 = (if \<not> np_iterable v0 then times_ones v0 k else np_array v0)
      in bnd (check_K_vector k name v1 mn) (\<lambda>_. Inr (vec_of v1)))"

text \<open>The initial value of the posterior: \<^verbatim>\<open>kwargs.pop(name, <K-vector>)\<close>, the check on
  the value as given, and only then \<^verbatim>\<open>_np.array\<close>.\<close>

definition set_posterior :: "nat \<Rightarrow> string \<Rightarrow> pyval option \<Rightarrow> vec \<Rightarrow> real \<Rightarrow> error + vec" where
  "set_posterior k name arg dflt mn =
     (let v0 = (case arg of None \<Rightarrow> NDArray (A1 dflt) | Some v \<Rightarrow> v)
      in bnd (check_K_vector k name v0 mn) (\<lambda>_. Inr (vec_of (np_array v0))))"

text \<open>\<^verbatim>\<open>_np.linspace(-1., 1., n)\<close> and \<^verbatim>\<open>reshape((K, dim))\<close> of a vector of \<open>K * dim\<close> entries.\<close>

definition linspace :: "nat \<Rightarrow> vec" where
  "linspace n = (if n = 1 then [- 1] else map (\<lambda>i. - 1 + 2 * real i / real (n - 1)) [0..<n])"

definition reshape2 :: "nat \<Rightarrow> nat \<Rightarrow> vec \<Rightarrow> mat" where
  "reshape2 k d xs = map (\<lambda>i. take d (drop (i * d) xs)) [0..<k]"

definition eye :: "nat \<Rightarrow> mat" where
  "eye d = map (\<lambda>i. map (\<lambda>j. if i = j then 1 else 0) [0..<d]) [0..<d]"

text \<open>\<^verbatim>\<open>_np.array([M] * K)\<close> of a \<open>d \<times> d\<close> matrix: with \<open>K = 0\<close> numpy builds an empty
  1-d array.\<close>

definition stack_K :: "nat \<Rightarrow> nat \<Rightarrow> mat \<Rightarrow> ndarray" where
  "stack_K k d M = (if k = 0 then A1 [] else A3 d d (replicate k M))"

fun mat_of :: "ndarray \<Rightarrow> mat" where
  "mat_of (A2 d rows) = rows"
| "mat_of a = []"

text \<open>The mean parameters.  \<open>m0\<close>: a vector of length \<open>dim\<close> is stacked \<open>K\<close> times
  (\<^verbatim>\<open>_np.vstack\<close> of no array raises); \<^verbatim>\<open>len\<close> of a 0-d array raises.\<close>

definition set_m0 :: "nat \<Rightarrow> nat \<Rightarrow> ndarray option \<Rightarrow> error + ndarray" where
  "set_m0 k d arg =
     (let a = (case arg of None \<Rightarrow> A1 (replicate d 0) | Some a \<Rightarrow> a)
      in case a of
           A0 x \<Rightarrow> Inl (TypeError ''len() of unsized object'')
         | A1 v \<Rightarrow> if length v = d
                    then (if k = 0 then Inl (ValueError ''need at least one array to concatenate'')
                          else Inr (A2 d (replicate k v)))
                    else Inr a
         | _ \<Rightarrow> Inr a)"

definition set_m :: "nat \<Rightarrow> nat \<Rightarrow> ndarray option \<Rightarrow> ndarray" where
  "set_m k d arg =
     (case arg of None \<Rightarrow> A2 d (reshape2 k d (linspace (k * d))) | Some a \<Rightarrow> a)"

text \<open>\<open>W0\<close> and its inverse.  The result is the new store, the reference kept in
  \<^verbatim>\<open>self.W0\<close> and \<^verbatim>\<open>self.inv_W0\<close>.  A \<open>dim \<times> dim\<close> matrix is copied and stacked into a
  new array object; a \<open>K \<times> dim \<times> dim\<close> array is kept as it is, without a copy.\<close>

fun inv_all :: "numlib \<Rightarrow> tensor \<Rightarrow> error + tensor" where
  "inv_all lib [] = Inr []"
| "inv_all lib (M # Ms) =
     (case linalg_inv lib M of
        None \<Rightarrow> Inl LinAlgError
      | Some M' \<Rightarrow> bnd (inv_all lib Ms) (\<lambda>Ms'. Inr (M' # Ms')))"

definition stack_W0 :: "ndarray list \<Rightarrow> nat \<Rightarrow> nat \<Rightarrow> mat \<Rightarrow> mat
    \<Rightarrow> error + ndarray list \<times> nat \<times> ndarray" where
  "stack_W0 h k d M Mi = Inr (h @ [stack_K k d M], length h, stack_K k d Mi)"

definition set_W0 :: "numlib \<Rightarrow> ndarray list \<Rightarrow> nat \<Rightarrow> nat \<Rightarrow> nat option
    \<Rightarrow> error + ndarray list \<times> nat \<times> ndarray" where
  "set_W0 lib h k d arg =
     (case arg of
        None \<Rightarrow> stack_W0 h k d (eye d) (eye d)
      | Some p \<Rightarrow>
          if shape (h ! p) = [d, d]
          then (case linalg_inv lib (mat_of (h ! p)) of
                  None \<Rightarrow> Inl LinAlgError
                | Some Mi \<Rightarrow> stack_W0 h k d (mat_of (h ! p)) Mi)
          else if shape (h ! p) = [k, d, d]
          then bnd (inv_all lib (tensor_of (h ! p))) (\<lambda>Ms. Inr (h, p, A3 d d Ms))
          else Inl (W0Shape [d, d] [k, d, d]))"

text \<open>\<open>W\<close>: the caller's array object itself, or a copy of \<open>W0\<close> in a new object.\<close>

definition set_W :: "ndarray list \<Rightarrow> nat \<Rightarrow> nat option \<Rightarrow> ndarray list \<times> nat" where
  "set_W h p0 arg = (case arg of None \<Rightarrow> (h @ [h ! p0], length h) | Some p \<Rightarrow> (h, p))"

definition set_variational_parameters :: "numlib \<Rightarrow> vb \<Rightarrow> bool \<Rightarrow> kwargs \<Rightarrow> error + vb" where
  "set_variational_parameters lib s args kw =
     (if args then Inl (TypeError ''keyword args only'') else
      bnd (set_prior (K s) ''alpha0'' (kw_alpha0 kw) (1 / 100000) 0) (\<lambda>a0.
      bnd (set_posterior (K s) ''alpha'' (kw_alpha kw) (map (\<lambda>x. 1 * x) a0) 0) (\<lambda>a.
      bnd (set_prior (K s) ''beta0'' (kw_beta0 kw) (1 / 100000) 0) (\<lambda>b0.
      bnd (set_posterior (K s) ''beta'' (kw_beta kw) (map (\<lambda>x. 1 * x) b0) 0) (\<lambda>b.
      let nu_min = real_of_int (int (dim s) - 1) in
      bnd (set_prior (K s) ''nu0'' (kw_nu0 kw) (nu_min + 1 / 100000) nu_min) (\<lambda>n0.
      bnd (set_posterior (K s) ''nu'' (kw_nu kw) (map (\<lambda>x. x * 1) n0) nu_min) (\<lambda>n.
      bnd (set_m0 (K s) (dim s) (kw_m0 kw)) (\<lambda>am0.
      let am = set_m (K s) (dim s) (kw_m kw) in
      if shape am0 \<noteq> [K s, dim s] then Inl (ShapeMismatch ''m0'' (shape am) [K s, dim s])
      else if shape am \<noteq> [K s, dim s] then Inl (ShapeMismatch ''m'' (shape am) [K s, dim s])
      else
      bnd (set_W0 lib (heap s) (K s) (dim s) (kw_W0 kw)) (\<lambda>(h1, p0, iW0).
      let (h2, p) = set_W h1 p0 (kw_W kw) in
      if shape (h2 ! p) \<noteq> [K s, dim s, dim s]
      then Inl (ShapeMismatch ''W'' (shape (h2 ! p)) [K s, dim s, dim s])
      else if kw_other kw \<noteq> [] then Inl (TypeError ''unexpected keyword(s)'')
      else Inr (s\<lparr>heap := h2, alpha0 := a0, alpha := a, beta0 := b0, beta := b,
                  nu0 := n0, nu := n, m0 := mat_of am0, m := mat_of am,
                  W0 := p0, inv_W0 := tensor_of iW0, W := p\<rparr>))))))))))"


subsection \<open>Vector and matrix arithmetic\<close>

text \<open>Whole-array numpy expressions are elementwise over lists; the operands have equal
  shapes in every state built by the constructor (see \<open>wf\<close> below).\<close>

definition vec_add :: "vec \<Rightarrow> vec \<Rightarrow> vec" where
  "vec_add u v = map2 (+) u v"

definition vec_sub :: "vec \<Rightarrow> vec \<Rightarrow> vec" where
  "vec_sub u v = map2 (-) u v"

definition vec_scale :: "real \<Rightarrow> vec \<Rightarrow> vec" where
  "vec_scale c v = map (\<lambda>x. c * x) v"

definition mat_add :: "mat \<Rightarrow> mat \<Rightarrow> mat" where
  "mat_add A B = map2 vec_add A B"

definition mat_scale :: "real \<Rightarrow> mat \<Rightarrow> mat" where
  "mat_scale c A = map (vec_scale c) A"

definition dot :: "vec \<Rightarrow> vec \<Rightarrow> real" where
  "dot u v = sum_list (map2 (*) u v)"

definition column :: "mat \<Rightarrow> nat \<Rightarrow> vec" where
  "column A j = map (\<lambda>row. row ! j) A"

text \<open>\<^verbatim>\<open>v.dot(A)\<close> for a vector \<open>v\<close> and a square matrix \<open>A\<close>, and \<^verbatim>\<open>v.dot(A).dot(v)\<close>.\<close>

definition vec_mat :: "vec \<Rightarrow> mat \<Rightarrow> vec" where
  "vec_mat v A = map (\<lambda>j. dot v (column A j)) [0..<length A]"

definition quad :: "vec \<Rightarrow> mat \<Rightarrow> real" where
  "quad v A = dot (vec_mat v A) v"

definition mat_mul :: "mat \<Rightarrow> mat \<Rightarrow> mat" where
  "mat_mul A B = map (\<lambda>row. vec_mat row B) A"

definition trace :: "mat \<Rightarrow> real" where
  "trace A = sum_list (map (\<lambda>i. A ! i ! i) [0..<length A])"

definition outer :: "vec \<Rightarrow> vec \<Rightarrow> mat" where
  "outer u v = map (\<lambda>x. map (\<lambda>y. x * y) v) u"

definition zeros2 :: "nat \<Rightarrow> nat \<Rightarrow> mat" where
  "zeros2 n k = replicate n (replicate k 0)"

text \<open>Modelled from the spec: \<^verbatim>\<open>regularize\<close> of \<^verbatim>\<open>tools/_regularize.py\<close>, which is not
  among the sources.  The spec describes a floor applied in place so that no entry is
  zero before a logarithm or a division; here every zero entry becomes \<open>tiny\<close>.\<close>

definition regularize :: "numlib \<Rightarrow> vec \<Rightarrow> vec" where
  "regularize lib v = map (\<lambda>x. if x = 0 then tiny lib else x) v"

text \<open>\<^verbatim>\<open>math.log\<close> raises outside its domain.\<close>

definition math_log :: "numlib \<Rightarrow> real \<Rightarrow> error + real" where
  "math_log lib x = (if x \<le> 0 then Inl (ValueError ''math domain error'') else Inr (np_log lib x))"

subsection \<open>The E-step\<close>

text \<open>In-place write of the array object behind a reference.\<close>

fun set_row :: "nat \<Rightarrow> mat \<Rightarrow> ndarray \<Rightarrow> ndarray" where
  "set_row k M (A3 d1 d2 ms) = A3 d1 d2 (ms[k := M])"
| "set_row k M a = a"

definition update_expectation_det_ln_lambda :: "numlib \<Rightarrow> vb \<Rightarrow> error + vb" where
  "update_expectation_det_ln_lambda lib s =
     (let dets = map (linalg_det lib) (W_arr s) in
      if \<not> list_all (\<lambda>d. d > 0) dets
      then Inl (AssertionError ''Some precision matrix is not positive definite'')
      else Inr (s\<lparr>expectation_det_ln_lambda :=
             map2 (\<lambda>n d. (\<Sum>i\<leftarrow>[1..<dim s + 1]. digamma lib ((n + (1 - real i)) * (1 / 2)))
                          + real (dim s) * np_log lib 2 + np_log lib d)
                  (nu s) dets\<rparr>))"

text \<open>The exponent (10.64).  \<^verbatim>\<open>GaussianInference\<close> reads \<^verbatim>\<open>self.data[0]\<close> first, which
  raises without samples; \<^verbatim>\<open>VBMerge\<close> enumerates the rows of \<open>W\<close> and the input
  components.\<close>

definition update_expectation_gauss_exponent :: "vb \<Rightarrow> error + vb" where
  "update_expectation_gauss_exponent s =
     (case variant s of
        Merge \<Rightarrow>
          Inr (s\<lparr>expectation_gauss_exponent :=
            map (\<lambda>l. map (\<lambda>k. real (dim s) / (beta s ! k) + (nu s ! k) *
                    (trace (mat_mul (W_arr s ! k) (sigma s ! l))
                     + quad (vec_sub (mu s ! l) (m s ! k)) (W_arr s ! k)))
                  [0..<length (W_arr s)]) [0..<length (mu s)]\<rparr>)
      | _ \<Rightarrow>
          if data s = [] then Inl IndexError
          else Inr (s\<lparr>expectation_gauss_exponent :=
            map (\<lambda>n. map (\<lambda>k. real (dim s) / (beta s ! k) + (nu s ! k) *
                    quad (vec_sub (data s ! n) (m s ! k)) (W_arr s ! k))
                  [0..<K s]) [0..<N s]\<rparr>))"

definition update_expectation_ln_pi :: "numlib \<Rightarrow> vb \<Rightarrow> vb" where
  "update_expectation_ln_pi lib s =
     s\<lparr>expectation_ln_pi := map (\<lambda>a. digamma lib a - digamma lib (sum_list (alpha s))) (alpha s)\<rparr>"

definition update_log_rho :: "numlib \<Rightarrow> vb \<Rightarrow> vb" where
  "update_log_rho lib s =
     (case variant s of
        Merge \<Rightarrow>
          (let tmp_k = map2 (\<lambda>p d. 2 * p + d - real (dim s) * np_log lib (2 * np_pi lib))
                         (expectation_ln_pi s) (expectation_det_ln_lambda s)
           in s\<lparr>log_rho := map2 (\<lambda>w row. map2 (\<lambda>t e. (w * t - w * e) / 2) tmp_k row)
                              (Nomega s) (expectation_gauss_exponent s)\<rparr>)
      | _ \<Rightarrow>
          s\<lparr>log_rho := map (\<lambda>row. map2 (\<lambda>e (p, d).
                              - (1 / 2) * e + p + (1 / 2) * d
                              - (1 / 2) * real (dim s) * np_log lib (2 * np_pi lib))
                            row (zip (expectation_ln_pi s) (expectation_det_ln_lambda s)))
                        (expectation_gauss_exponent s)\<rparr>)"

text \<open>The responsibilities (10.49): subtract the largest entry of each row, exponentiate,
  divide by the row sum, regularise.  The maximum over an axis of length zero raises.\<close>

definition maximum :: "vec \<Rightarrow> real" where
  "maximum row = fold max (tl row) (hd row)"

definition softmax_row :: "numlib \<Rightarrow> vec \<Rightarrow> vec" where
  "softmax_row lib row =
     (let rho = map (\<lambda>x. np_exp lib (x - maximum row)) row;
          normalization_rho = sum_list rho
      in regularize lib (map (\<lambda>x. x / normalization_rho) rho))"

definition update_r :: "numlib \<Rightarrow> vb \<Rightarrow> error + vb" where
  "update_r lib s =
     (let s1 = update_log_rho lib s in
      if list_ex (\<lambda>row. row = []) (log_rho s1) \<or> (log_rho s1 = [] \<and> K s1 = 0)
      then Inl (ValueError ''zero-size array to reduction operation maximum which has no identity'')
      else Inr (s1\<lparr>r := map (softmax_row lib) (log_rho s1)\<rparr>))"

text \<open>The effective counts (10.51), written into the existing array \<^verbatim>\<open>self.N_comp\<close> of
  length \<open>K\<close>.  The two raw-sample versions regularise \<^verbatim>\<open>N_comp\<close> in place while taking
  its inverse, \<^verbatim>\<open>VBMerge\<close> just before.\<close>

definition update_N_comp :: "numlib \<Rightarrow> vb \<Rightarrow> vb" where
  "update_N_comp lib s =
     (let cnt = (case variant s of
                   Raw \<Rightarrow> map (\<lambda>k. sum_list (column (r s) k)) [0..<K s]
                 | Weighted \<Rightarrow> map (\<lambda>k. dot (weights s) (column (r s) k)) [0..<K s]
                 | Merge \<Rightarrow> map (\<lambda>k. dot (Nomega s) (column (r s) k)) [0..<K s]);
          cnt' = regularize lib cnt
      in s\<lparr>N_comp := cnt', inv_N_comp := map (\<lambda>x. 1 / x) cnt'\<rparr>)"

text \<open>The component means (10.52), written into \<^verbatim>\<open>self.x_mean_comp\<close> (\<open>K \<times> dim\<close>).\<close>

definition weighted_rows :: "vec \<Rightarrow> mat \<Rightarrow> nat \<Rightarrow> real" where
  "weighted_rows c X i = dot c (column X i)"

definition update_x_mean_comp :: "vb \<Rightarrow> vb" where
  "update_x_mean_comp s =
     (let coeff = (\<lambda>k. case variant s of
                     Raw \<Rightarrow> column (r s) k
                   | Weighted \<Rightarrow> map2 (*) (weights s) (column (r s) k)
                   | Merge \<Rightarrow> map2 (*) (Nomega s) (column (r s) k));
          X = (case variant s of Merge \<Rightarrow> mu s | _ \<Rightarrow> data s)
      in s\<lparr>x_mean_comp :=
           map (\<lambda>k. map (\<lambda>i. (inv_N_comp s ! k) * weighted_rows (coeff k) X i) [0..<dim s])
               [0..<K s]\<rparr>)"

text \<open>The scatter (10.53): for each \<open>k\<close> the sum over the samples of the weighted outer
  products, scaled by \<^verbatim>\<open>inv_N_comp[k]\<close>.  The raw-sample versions read \<^verbatim>\<open>self.data[0]\<close>
  and \<^verbatim>\<open>self.S[0]\<close> for their temporaries.\<close>

definition mat_sum :: "nat \<Rightarrow> mat list \<Rightarrow> mat" where
  "mat_sum d Ms = fold (\<lambda>M acc. mat_add acc M) Ms (zeros2 d d)"

definition scatter :: "vb \<Rightarrow> nat \<Rightarrow> mat" where
  "scatter s k =
     (case variant s of
        Raw \<Rightarrow> mat_sum (dim s)
          (map (\<lambda>n. let tmpv = vec_sub (data s ! n) (x_mean_comp s ! k)
                    in mat_scale (r s ! n ! k) (outer tmpv tmpv)) [0..<length (data s)])
      | Weighted \<Rightarrow> mat_sum (dim s)
          (map (\<lambda>n. let tmpv = vec_sub (data s ! n) (x_mean_comp s ! k)
                    in mat_scale (r s ! n ! k * weights s ! n) (outer tmpv tmpv))
               [0..<length (data s)])
      | Merge \<Rightarrow> mat_sum (dim s)
          (map (\<lambda>l. let tmp = vec_sub (mu s ! l) (x_mean_comp s ! k)
                    in mat_scale (Nomega s ! l * r s ! l ! k) (mat_add (outer tmp tmp) (sigma s ! l)))
               [0..<L s]))"

definition update_S :: "vb \<Rightarrow> error + vb" where
  "update_S s =
     (if variant s \<noteq> Merge \<and> (data s = [] \<or> S s = []) then Inl IndexError
      else Inr (s\<lparr>S := fold (\<lambda>k Ss. Ss[k := mat_scale (inv_N_comp s ! k) (scatter s k)])
                         [0..<K s] (S s)\<rparr>))"

definition E_step :: "numlib \<Rightarrow> vb \<Rightarrow> error + vb" where
  "E_step lib s =
     bnd (update_expectation_det_ln_lambda lib s) (\<lambda>s1.
     bnd (update_expectation_gauss_exponent s1) (\<lambda>s2.
     bnd (update_r lib (update_expectation_ln_pi lib s2)) (\<lambda>s3.
     update_S (update_x_mean_comp (update_N_comp lib s3)))))"

subsection \<open>The M-step\<close>

text \<open>\<open>m\<close> (10.61) and \<open>W\<close> (10.62) are written row by row into the existing arrays;
  the array behind \<^verbatim>\<open>self.W\<close> lives in the store.\<close>

definition update_m :: "vb \<Rightarrow> vb" where
  "update_m s =
     s\<lparr>m := fold (\<lambda>k ms. ms[k := vec_scale (1 / (beta s ! k))
                              (vec_add (vec_scale (beta0 s ! k) (m0 s ! k))
                                       (vec_scale (N_comp s ! k) (x_mean_comp s ! k)))])
                 [0..<K s] (m s)\<rparr>"

definition cov_W :: "vb \<Rightarrow> nat \<Rightarrow> mat" where
  "cov_W s k =
     (let tmp = vec_sub (x_mean_comp s ! k) (m0 s ! k);
          cov = mat_scale (beta0 s ! k / (beta0 s ! k + N_comp s ! k)) (outer tmp tmp);
          cov = mat_add cov (S s ! k);
          cov = mat_scale (N_comp s ! k) cov
      in mat_add cov (inv_W0 s ! k))"

fun update_W_loop :: "numlib \<Rightarrow> nat list \<Rightarrow> vb \<Rightarrow> error + vb" where
  "update_W_loop lib [] s = Inr s"
| "update_W_loop lib (k # ks) s =
     (case linalg_inv lib (cov_W s k) of
        None \<Rightarrow> Inl LinAlgError
      | Some Wk \<Rightarrow> update_W_loop lib ks (s\<lparr>heap := (heap s)[W s := set_row k Wk (heap s ! W s)]\<rparr>))"

definition update_W :: "numlib \<Rightarrow> vb \<Rightarrow> error + vb" where
  "update_W lib s = update_W_loop lib [0..<K s] s"

definition M_step :: "numlib \<Rightarrow> vb \<Rightarrow> error + vb" where
  "M_step lib s =
     (let s1 = s\<lparr>nu := vec_add (nu0 s) (N_comp s)\<rparr>;
          s2 = s1\<lparr>alpha := vec_add (alpha0 s1) (N_comp s1)\<rparr>;
          s3 = s2\<lparr>beta := vec_add (beta0 s2) (N_comp s2)\<rparr>
      in update_W lib (update_m s3))"

definition update :: "numlib \<Rightarrow> vb \<Rightarrow> error + vb" where
  "update lib s = bnd (M_step lib s) (E_step lib)"

subsection \<open>\<^verbatim>\<open>prune\<close>\<close>

definition components_to_survive :: "vb \<Rightarrow> real \<Rightarrow> nat list" where
  "components_to_survive s threshold =
     filter (\<lambda>k. N_comp s ! k \<ge> threshold) [0..<length (N_comp s)]"

text \<open>\<^verbatim>\<open>m[k_new] = m[k_old]\<close> on an array held by value, on an array object of the store,
  and \<^verbatim>\<open>m[:, k_new] = m[:, k_old]\<close> on a matrix.\<close>

definition move :: "nat \<Rightarrow> nat \<Rightarrow> 'a list \<Rightarrow> 'a list" where
  "move k_new k_old xs = xs[k_new := xs ! k_old]"

fun move_obj :: "nat \<Rightarrow> nat \<Rightarrow> ndarray \<Rightarrow> ndarray" where
  "move_obj k_new k_old (A3 d1 d2 ms) = A3 d1 d2 (move k_new k_old ms)"
| "move_obj k_new k_old (A2 d rows) = A2 d (move k_new k_old rows)"
| "move_obj k_new k_old (A1 v) = A1 (move k_new k_old v)"
| "move_obj k_new k_old a = a"

definition move_col :: "nat \<Rightarrow> nat \<Rightarrow> mat \<Rightarrow> mat" where
  "move_col k_new k_old rows = map (move k_new k_old) rows"

text \<open>One reindexing: the vector and matrix members in the order of \<^verbatim>\<open>vmembers\<close> (the
  array behind \<open>W0\<close> before the one behind \<open>W\<close>), then \<^verbatim>\<open>mmembers\<close>.\<close>

definition reindex :: "nat \<Rightarrow> nat \<Rightarrow> vb \<Rightarrow> vb" where
  "reindex k_new k_old s =
     (let h1 = (heap s)[W0 s := move_obj k_new k_old (heap s ! W0 s)];
          h2 = h1[W s := move_obj k_new k_old (h1 ! W s)]
      in s\<lparr>heap := h2,
           alpha0 := move k_new k_old (alpha0 s), alpha := move k_new k_old (alpha s),
           beta0 := move k_new k_old (beta0 s), beta := move k_new k_old (beta s),
           expectation_det_ln_lambda := move k_new k_old (expectation_det_ln_lambda s),
           expectation_ln_pi := move k_new k_old (expectation_ln_pi s),
           N_comp := move k_new k_old (N_comp s), nu0 := move k_new k_old (nu0 s), nu := move k_new k_old (nu s),
           m0 := move k_new k_old (m0 s), m := move k_new k_old (m s), S := move k_new k_old (S s),
           inv_W0 := move k_new k_old (inv_W0 s), x_mean_comp := move k_new k_old (x_mean_comp s),
           expectation_gauss_exponent := move_col k_new k_old (expectation_gauss_exponent s),
           r := move_col k_new k_old (r s)\<rparr>)"

fun shift :: "nat \<Rightarrow> nat list \<Rightarrow> vb \<Rightarrow> vb" where
  "shift k_new [] s = s"
| "shift k_new (k_old # ks) s =
     shift (Suc k_new) ks (if k_old \<noteq> k_new then reindex k_new k_old s else s)"

text \<open>\<^verbatim>\<open>a[:K]\<close> and \<^verbatim>\<open>a[:, :K]\<close>.  A slice of an array object is a view of the same memory;
  the store keeps, for each object, the part this instance can still reach.\<close>

fun cut_obj :: "nat \<Rightarrow> ndarray \<Rightarrow> ndarray" where
  "cut_obj k (A3 d1 d2 ms) = A3 d1 d2 (take k ms)"
| "cut_obj k (A2 d rows) = A2 d (take k rows)"
| "cut_obj k (A1 v) = A1 (take k v)"
| "cut_obj k a = a"

definition cut :: "vb \<Rightarrow> vb" where
  "cut s =
     (let h1 = (heap s)[W0 s := cut_obj (K s) (heap s ! W0 s)];
          h2 = h1[W s := cut_obj (K s) (h1 ! W s)]
      in s\<lparr>heap := h2,
           alpha0 := take (K s) (alpha0 s), alpha := take (K s) (alpha s),
           beta0 := take (K s) (beta0 s), beta := take (K s) (beta s),
           expectation_det_ln_lambda := take (K s) (expectation_det_ln_lambda s),
           expectation_ln_pi := take (K s) (expectation_ln_pi s),
           N_comp := take (K s) (N_comp s), nu0 := take (K s) (nu0 s), nu := take (K s) (nu s),
           m0 := take (K s) (m0 s), m := take (K s) (m s), S := take (K s) (S s),
           inv_W0 := take (K s) (inv_W0 s), x_mean_comp := take (K s) (x_mean_comp s),
           expectation_gauss_exponent := map (take (K s)) (expectation_gauss_exponent s),
           r := map (take (K s)) (r s)\<rparr>)"

text \<open>The part of \<^verbatim>\<open>prune\<close> before the closing E-step.\<close>

definition compact :: "real \<Rightarrow> vb \<Rightarrow> vb" where
  "compact threshold s =
     (let surv = components_to_survive s threshold
      in cut (shift 0 surv (s\<lparr>K := length surv\<rparr>)))"

definition prune :: "numlib \<Rightarrow> real \<Rightarrow> vb \<Rightarrow> error + vb" where
  "prune lib threshold s = (if threshold = 0 then Inr s else E_step lib (compact threshold s))"

subsection \<open>\<^verbatim>\<open>make_mixture\<close>\<close>

text \<open>Modelled from the spec: the value types \<^verbatim>\<open>Gauss\<close> and \<^verbatim>\<open>MixtureDensity\<close> of
  \<^verbatim>\<open>importance_sampling/proposal.py\<close>, which is not among the sources.  The spec
  describes a mixture as an ordered sequence of Gaussian components, each with a mean
  vector and a covariance matrix, and their weights; the constructors are taken to
  store what they are given.\<close>

datatype gauss = Gauss vec mat

datatype mixture = MixtureDensity "gauss list" vec

text \<open>The lines printed by \<^verbatim>\<open>make_mixture\<close>.\<close>

datatype report =
    ZeroWeight nat
  | ModeUndefined nat
  | CouldNotCreate nat
  | SkippedComponents "nat list"

record mm_acc =
  components :: "gauss list"
  mweights :: vec
  skipped :: "nat list"
  printed :: "report list"

definition skip :: "report \<Rightarrow> nat \<Rightarrow> mm_acc \<Rightarrow> mm_acc" where
  "skip msg k acc = acc\<lparr>skipped := skipped acc @ [k], printed := printed acc @ [msg]\<rparr>"

text \<open>One pass of the loop over \<^verbatim>\<open>enumerate(self.W)\<close>.  An index error on \<^verbatim>\<open>alpha\<close> or
  \<^verbatim>\<open>nu\<close> leaves the function; anything raised inside \<^verbatim>\<open>try\<close> skips the component.\<close>

definition mm_step :: "numlib \<Rightarrow> vb \<Rightarrow> nat \<Rightarrow> mat \<Rightarrow> mm_acc \<Rightarrow> error + mm_acc" where
  "mm_step lib s k Wk acc =
     (if length (alpha s) \<le> k then Inl IndexError
      else let pi_k = alpha s ! k - 1 in
      if pi_k \<le> 0 then Inr (skip (ZeroWeight k) k acc)
      else if length (nu s) \<le> k then Inl IndexError
      else if nu s ! k \<le> real (dim s) then Inr (skip (ModeUndefined k) k acc)
      else (case linalg_inv lib (mat_scale (nu s ! k - real (dim s)) Wk) of
              None \<Rightarrow> Inr (skip (CouldNotCreate k) k acc)
            | Some cov \<Rightarrow>
                if length (m s) \<le> k then Inr (skip (CouldNotCreate k) k acc)
                else Inr (acc\<lparr>components := components acc @ [Gauss (m s ! k) cov],
                             mweights := mweights acc @ [pi_k]\<rparr>)))"

fun mm_loop :: "numlib \<Rightarrow> vb \<Rightarrow> nat \<Rightarrow> tensor \<Rightarrow> mm_acc \<Rightarrow> error + mm_acc" where
  "mm_loop lib s k [] acc = Inr acc"
| "mm_loop lib s k (Wk # Ws) acc = bnd (mm_step lib s k Wk acc) (mm_loop lib s (Suc k) Ws)"

definition make_mixture :: "numlib \<Rightarrow> vb \<Rightarrow> error + mixture \<times> report list" where
  "make_mixture lib s =
     bnd (mm_loop lib s 0 (W_arr s) \<lparr>components = [], mweights = [], skipped = [], printed = []\<rparr>)
       (\<lambda>acc. Inr (MixtureDensity (components acc) (mweights acc),
                    if skipped acc \<noteq> [] then printed acc @ [SkippedComponents (skipped acc)]
                    else printed acc))"

subsection \<open>The lower bound\<close>

text \<open>A sum over \<^verbatim>\<open>range(self.K)\<close> whose terms may raise.\<close>

fun sum_err :: "(nat \<Rightarrow> error + real) \<Rightarrow> nat list \<Rightarrow> error + real" where
  "sum_err f [] = Inr 0"
| "sum_err f (k # ks) = bnd (f k) (\<lambda>x. bnd (sum_err f ks) (\<lambda>y. Inr (x + y)))"

definition Dirichlet_log_C :: "numlib \<Rightarrow> vec \<Rightarrow> real" where
  "Dirichlet_log_C lib al = gammaln lib (sum_list al) - (\<Sum>a\<leftarrow>al. gammaln lib a)"

definition Wishart_log_B :: "numlib \<Rightarrow> mat \<Rightarrow> real \<Rightarrow> error + real" where
  "Wishart_log_B lib Wm n =
     bnd (math_log lib (linalg_det lib Wm)) (\<lambda>ld.
       Inr (- (1 / 2) * n * ld
            - (1 / 2) * n * real (length Wm) * np_log lib 2
            - (1 / 4) * real (length Wm) * (real (length Wm) - 1) * np_log lib (np_pi lib)
            - (\<Sum>i\<leftarrow>[1..<length Wm + 1]. gammaln lib ((1 / 2) * (n + 1 - real i)))))"

definition Wishart_expect_log_lambda :: "numlib \<Rightarrow> mat \<Rightarrow> real \<Rightarrow> error + real" where
  "Wishart_expect_log_lambda lib Wm n =
     bnd (math_log lib (linalg_det lib Wm)) (\<lambda>ld.
       Inr ((\<Sum>i\<leftarrow>[1..<length Wm + 1]. digamma lib ((1 / 2) * (n + 1 - real i)))
            + real (length Wm) * np_log lib 2 + ld))"

definition Wishart_H :: "numlib \<Rightarrow> mat \<Rightarrow> real \<Rightarrow> error + real" where
  "Wishart_H lib Wm n =
     bnd (Wishart_log_B lib Wm n) (\<lambda>log_B.
     bnd (Wishart_expect_log_lambda lib Wm n) (\<lambda>expect_log_lambda.
       Inr (- log_B - (1 / 2) * (n - real (length Wm) - 1) * expect_log_lambda
            + (1 / 2) * n * real (length Wm))))"

definition expectation_log_p_X :: "numlib \<Rightarrow> vb \<Rightarrow> real" where
  "expectation_log_p_X lib s =
     (\<Sum>k\<leftarrow>[0..<K s].
        (let tmp = vec_sub (x_mean_comp s ! k) (m s ! k)
         in (expectation_det_ln_lambda s ! k
             - real (dim s) / (beta s ! k)
             - (nu s ! k) * (trace (mat_mul (S s ! k) (W_arr s ! k)) + quad tmp (W_arr s ! k))
             - real (dim s) * np_log lib (2 * np_pi lib)) * (N_comp s ! k))) / 2"

definition expectation_log_p_Z :: "vb \<Rightarrow> real" where
  "expectation_log_p_Z s = dot (N_comp s) (expectation_ln_pi s)"

definition expectation_log_p_pi :: "numlib \<Rightarrow> vb \<Rightarrow> real" where
  "expectation_log_p_pi lib s =
     Dirichlet_log_C lib (alpha0 s) + dot (map (\<lambda>a. a - 1) (alpha0 s)) (expectation_ln_pi s)"

definition expectation_log_p_mu_lambda :: "numlib \<Rightarrow> vb \<Rightarrow> error + real" where
  "expectation_log_p_mu_lambda lib s =
     bnd (sum_err (\<lambda>k.
            let tmp = vec_sub (m s ! k) (m0 s ! k) in
            bnd (math_log lib (beta0 s ! k / (2 * np_pi lib))) (\<lambda>lb.
            bnd (Wishart_log_B lib (W0_arr s ! k) (nu0 s ! k)) (\<lambda>log_B.
              Inr (real (dim s) * lb
                   + (expectation_det_ln_lambda s ! k
                      - real (dim s) * (beta0 s ! k) / (beta s ! k)
                      - (beta0 s ! k) * (nu s ! k) * quad tmp (W_arr s ! k))
                   + 2 * log_B
                   + (nu0 s ! k - real (dim s) - 1) * (expectation_det_ln_lambda s ! k)
                   - (nu s ! k) * trace (mat_mul (inv_W0 s ! k) (W_arr s ! k))))))
          [0..<K s])
       (\<lambda>res. Inr ((1 / 2) * res))"

definition expectation_log_q_Z :: "numlib \<Rightarrow> vb \<Rightarrow> real" where
  "expectation_log_q_Z lib s =
     (case variant s of
        Weighted \<Rightarrow> sum_list (map2 (\<lambda>w row. w * (\<Sum>x\<leftarrow>row. x * np_log lib x)) (weights s) (r s))
      | _ \<Rightarrow> (\<Sum>row\<leftarrow>r s. \<Sum>x\<leftarrow>row. x * np_log lib x))"

definition expectation_log_q_pi :: "numlib \<Rightarrow> vb \<Rightarrow> real" where
  "expectation_log_q_pi lib s =
     dot (map (\<lambda>a. a - 1) (alpha s)) (expectation_ln_pi s) + Dirichlet_log_C lib (alpha s)"

definition expectation_log_q_mu_lambda :: "numlib \<Rightarrow> vb \<Rightarrow> error + real" where
  "expectation_log_q_mu_lambda lib s =
     bnd (sum_err (\<lambda>k.
            bnd (math_log lib (beta s ! k / (2 * np_pi lib))) (\<lambda>lb.
            bnd (Wishart_H lib (W_arr s ! k) (nu s ! k)) (\<lambda>H.
              Inr ((1 / 2) * (expectation_det_ln_lambda s ! k + real (dim s) * lb) - H))))
          [0..<K s])
       (\<lambda>res. Inr (- (1 / 2) * real (K s) * real (dim s) + res))"

text \<open>The seven terms in the order of the source.  The private attributes in which the
  source also stores each term are written and never read; they are left out.\<close>

definition likelihood_bound :: "numlib \<Rightarrow> vb \<Rightarrow> error + real" where
  "likelihood_bound lib s =
     (let b1 = expectation_log_p_X lib s + expectation_log_p_Z s + expectation_log_p_pi lib s in
      bnd (expectation_log_p_mu_lambda lib s) (\<lambda>t4.
      let b2 = b1 + t4 - expectation_log_q_Z lib s - expectation_log_q_pi lib s in
      bnd (expectation_log_q_mu_lambda lib s) (\<lambda>t7. Inr (b2 - t7))))"

subsection \<open>\<^verbatim>\<open>run\<close>\<close>

text \<open>The lines \<^verbatim>\<open>run\<close> prints.\<close>

datatype event =
    NewBound real nat vec
  | AfterUpdate nat real nat vec
  | BoundDecreased real real

text \<open>The local variables that live across iterations; \<open>bound\<close> is unbound until the
  first pass has assigned it.\<close>

record loopvars =
  self :: vb
  old_K :: "nat option"
  bound :: "real option"
  out :: "event list"

datatype outcome = Return nat loopvars | Continue loopvars

text \<open>The baseline of a pass: the previous \<open>bound\<close>, or a fresh evaluation.\<close>

definition old_bound_of :: "numlib \<Rightarrow> loopvars \<Rightarrow> error + real" where
  "old_bound_of lib lv =
     (if Some (K (self lv)) = old_K lv
      then (case bound lv of None \<Rightarrow> Inl (UnboundLocalError ''bound'') | Some b \<Rightarrow> Inr b)
      else likelihood_bound lib (self lv))"

text \<open>The test for approximate convergence, reached when the bounds differ.  The bounds
  are \<^verbatim>\<open>numpy.float64\<close>: with a new bound of \<open>0\<close> the quotient \<^verbatim>\<open>diff / bound\<close> of the positive
  \<open>diff\<close> is infinite, and the relative test fails.\<close>

definition approx_converged :: "real \<Rightarrow> real \<Rightarrow> real \<Rightarrow> real \<Rightarrow> bool" where
  "approx_converged bnd_new bnd_old rel_tol abs_tol =
     (let diff = bnd_new - bnd_old in
      if diff > 0
      then (if \<bar>bnd_new\<bar> < abs_tol then \<bar>diff\<bar> < abs_tol
            else if bnd_new = 0 then False
            else \<bar>diff / bnd_new\<bar> < rel_tol)
      else False)"

definition loop_body :: "numlib \<Rightarrow> real \<Rightarrow> real \<Rightarrow> real \<Rightarrow> bool \<Rightarrow> nat \<Rightarrow> loopvars
    \<Rightarrow> error + outcome" where
  "loop_body lib prune_thr rel_tol abs_tol verbose i lv =
     bnd (old_bound_of lib lv) (\<lambda>old_bound.
     let out1 = (if Some (K (self lv)) \<noteq> old_K lv \<and> verbose
                 then out lv @ [NewBound old_bound (K (self lv)) (N_comp (self lv))]
                 else out lv) in
     bnd (update lib (self lv)) (\<lambda>s1.
     bnd (likelihood_bound lib s1) (\<lambda>b.
     let out2 = (if verbose then out1 @ [AfterUpdate i b (K s1) (N_comp s1)] else out1);
         out3 = (if b < old_bound then out2 @ [BoundDecreased old_bound b] else out2);
         lv1 = lv\<lparr>self := s1, bound := Some b, out := out3\<rparr>
     in if b = old_bound then Inr (Return i lv1)
        else if approx_converged b old_bound rel_tol abs_tol then Inr (Return i lv1)
        else bnd (prune lib prune_thr s1) (\<lambda>s2.
               Inr (Continue (lv1\<lparr>self := s2, old_K := Some (K s1)\<rparr>))))))"

fun run_loop :: "numlib \<Rightarrow> real \<Rightarrow> real \<Rightarrow> real \<Rightarrow> bool \<Rightarrow> nat \<Rightarrow> nat \<Rightarrow> loopvars
    \<Rightarrow> error + nat option \<times> loopvars" where
  "run_loop lib prune_thr rel_tol abs_tol verbose i 0 lv = Inr (None, lv)"
| "run_loop lib prune_thr rel_tol abs_tol verbose i (Suc n) lv =
     (case loop_body lib prune_thr rel_tol abs_tol verbose i lv of
        Inl e \<Rightarrow> Inl e
      | Inr (Return j lv') \<Rightarrow> Inr (Some j, lv')
      | Inr (Continue lv') \<Rightarrow> run_loop lib prune_thr rel_tol abs_tol verbose (Suc i) n lv')"

text \<open>\<^verbatim>\<open>run(iterations, prune, rel_tol, abs_tol, verbose)\<close>: the value returned, and the
  instance and the printed lines at that moment.\<close>

definition run :: "numlib \<Rightarrow> vb \<Rightarrow> nat \<Rightarrow> real \<Rightarrow> real \<Rightarrow> real \<Rightarrow> bool
    \<Rightarrow> error + nat option \<times> loopvars" where
  "run lib s iterations prune_thr rel_tol abs_tol verbose =
     run_loop lib prune_thr rel_tol abs_tol verbose 1 iterations
       \<lparr>self = s, old_K = None, bound = None, out = []\<rparr>"

subsection \<open>The constructor of \<^verbatim>\<open>GaussianInference\<close>\<close>

text \<open>An instance none of whose attributes has been assigned yet.\<close>

definition unassigned :: vb where
  "unassigned =
     \<lparr>heap = [], variant = Raw, data = [], weights = [], L = 0, mu = [], sigma = [],
      Nomega = [], K = 0, N = 0, dim = 0, alpha0 = [], alpha = [], beta0 = [], beta = [],
      nu0 = [], nu = [], m0 = [], m = [], W0 = 0, inv_W0 = [], W = 0, x_mean_comp = [],
      N_comp = [], inv_N_comp = [], S = [], expectation_gauss_exponent = [],
      expectation_det_ln_lambda = [], expectation_ln_pi = [], log_rho = [], r = []\<rparr>"

text \<open>\<^verbatim>\<open>_initialize_output\<close>; the contents of \<^verbatim>\<open>_np.empty_like(self.W)\<close> are arbitrary and
  are overwritten by the first E-step before they are read; zeros stand for them.\<close>

definition initialize_output :: "vb \<Rightarrow> vb" where
  "initialize_output s =
     s\<lparr>x_mean_comp := zeros2 (K s) (dim s), N_comp := replicate (K s) 0,
       S := map (map (map (\<lambda>x. 0))) (W_arr s)\<rparr>"

text \<open>\<open>h\<close> is the store at the call: it holds the array objects the caller passes for
  \<open>W0\<close> and \<open>W\<close>.  The weights are normalised to \<open>N\<close>.\<close>

definition GaussianInference :: "numlib \<Rightarrow> ndarray list \<Rightarrow> ndarray \<Rightarrow> nat \<Rightarrow> vec option
    \<Rightarrow> kwargs \<Rightarrow> error + vb" where
  "GaussianInference lib h dat comps wts kw =
     (case dat of
        A2 d rows \<Rightarrow>
          (let s0 = unassigned\<lparr>heap := h, data := rows, K := comps, N := length rows, dim := d\<rparr> in
           bnd (case wts of
                  None \<Rightarrow> Inr s0
                | Some w \<Rightarrow>
                    if length w \<noteq> length rows
                    then Inl (AssertionError ''The number of samples does not match the number of weights'')
                    else Inr (s0\<lparr>variant := Weighted,
                                weights := map (\<lambda>x. real (length rows) * x / sum_list w) w\<rparr>))
             (\<lambda>s1.
           bnd (set_variational_parameters lib s1 False kw) (\<lambda>s2.
           E_step lib ((initialize_output s2)\<lparr>expectation_gauss_exponent := zeros2 (N s2) (K s2)\<rparr>))))
      | _ \<Rightarrow> Inl (ValueError ''need exactly two values to unpack''))"

text \<open>No keyword argument given.\<close>

definition no_kwargs :: kwargs where
  "no_kwargs = \<lparr>kw_alpha0 = None, kw_alpha = None, kw_beta0 = None, kw_beta = None,
      kw_nu0 = None, kw_nu = None, kw_m0 = None, kw_m = None, kw_W0 = None, kw_W = None,
      kw_other = []\<rparr>"

subsection \<open>The shape invariant\<close>

text \<open>Every per-component array has \<open>K\<close> entries along its component axis, and the two
  references point into the store.  The constructor establishes this, and the E-step,
  the M-step and \<^verbatim>\<open>prune\<close> keep it.\<close>

definition wf :: "vb \<Rightarrow> bool" where
  "wf s =
     (W0 s < length (heap s) \<and> W s < length (heap s) \<and>
      length (W0_arr s) = K s \<and> length (W_arr s) = K s \<and>
      length (alpha0 s) = K s \<and> length (alpha s) = K s \<and>
      length (beta0 s) = K s \<and> length (beta s) = K s \<and>
      length (nu0 s) = K s \<and> length (nu s) = K s \<and>
      length (m0 s) = K s \<and> length (m s) = K s \<and>
      length (inv_W0 s) = K s \<and> length (S s) = K s \<and>
      length (x_mean_comp s) = K s \<and> length (N_comp s) = K s \<and>
      length (expectation_det_ln_lambda s) = K s \<and> length (expectation_ln_pi s) = K s \<and>
      list_all (\<lambda>row. length row = K s) (expectation_gauss_exponent s) \<and>
      list_all (\<lambda>row. length row = K s) (r s))"

subsection \<open>A concrete instance of the primitives\<close>

text \<open>For running the model on one-dimensional inputs: the exact determinant and inverse
  of a \<open>1 \<times> 1\<close> matrix, and rational stand-ins for the transcendental functions, with
  an exponential that underflows to zero.\<close>

definition lib1 :: numlib where
  "lib1 = \<lparr>np_pi = 355 / 113,
            np_exp = (\<lambda>x. max 0 (1 + x)),
            np_log = (\<lambda>x. 0),
            digamma = (\<lambda>x. x - 1),
            gammaln = (\<lambda>x. 0),
            linalg_det = (\<lambda>M. case M of [[x]] \<Rightarrow> x | _ \<Rightarrow> 0),
            linalg_inv = (\<lambda>M. case M of [[x]] \<Rightarrow> if x = 0 then None else Some [[1 / x]]
                                | _ \<Rightarrow> None),
            tiny = 1 / 2 ^ 1022\<rparr>"

subsection \<open>The offending array, in the words of the specification\<close>

text \<open>A vector given for a hyperparameter offends when its length is not \<open>K\<close>, or, having
  length \<open>K\<close>, when one of its entries does not exceed the minimum (\<open>0\<close> for \<open>alpha\<close> and
  \<open>beta\<close>, \<open>D - 1\<close> for \<open>nu\<close>); the error then names the vector, and the expected length
  or the minimum.\<close>

definition offence :: "nat \<Rightarrow> string \<Rightarrow> real \<Rightarrow> vec \<Rightarrow> error option" where
  "offence k name mn v =
     (if length v \<noteq> k then Some (LenMismatch name (length v) k)
      else if \<not> list_all (\<lambda>x. x > mn) v then Some (NotExceeding name mn v)
      else None)"

definition hyper_args :: "vb \<Rightarrow> kwargs \<Rightarrow> (string \<times> real \<times> pyval option) list" where
  "hyper_args s kw =
     [(''alpha0'', 0, kw_alpha0 kw), (''alpha'', 0, kw_alpha kw),
      (''beta0'', 0, kw_beta0 kw), (''beta'', 0, kw_beta kw),
      (''nu0'', real_of_int (int (dim s) - 1), kw_nu0 kw),
      (''nu'', real_of_int (int (dim s) - 1), kw_nu kw)]"

fun vector_or_absent :: "pyval option \<Rightarrow> bool" where
  "vector_or_absent None = True"
| "vector_or_absent (Some (NDArray (A1 v))) = True"
| "vector_or_absent a = False"

definition vector_kwargs :: "kwargs \<Rightarrow> bool" where
  "vector_kwargs kw =
     (vector_or_absent (kw_alpha0 kw) \<and> vector_or_absent (kw_alpha kw) \<and>
      vector_or_absent (kw_beta0 kw) \<and> vector_or_absent (kw_beta kw) \<and>
      vector_or_absent (kw_nu0 kw) \<and> vector_or_absent (kw_nu kw))"

text \<open>The array an error names, if it names one.\<close>

fun array_named :: "error \<Rightarrow> string option" where
  "array_named (NotAVector name sh) = Some name"
| "array_named (LenMismatch name n k) = Some name"
| "array_named (NotExceeding name mn v) = Some name"
| "array_named e = None"

fun first_offence :: "nat \<Rightarrow> (string \<times> real \<times> pyval option) list \<Rightarrow> error option" where
  "first_offence k [] = None"
| "first_offence k ((name, mn, Some (NDArray (A1 v))) # rest) =
     (case offence k name mn v of Some e \<Rightarrow> Some e | None \<Rightarrow> first_offence k rest)"
| "first_offence k ((name, mn, a) # rest) = first_offence k rest"

subsection \<open>The passes of the loop in \<^verbatim>\<open>run\<close>\<close>

text \<open>The local variables at the start of pass \<open>j + 1\<close>, when the loop gets there: no
  earlier pass has returned or raised.\<close>

fun vars_at :: "numlib \<Rightarrow> vb \<Rightarrow> real \<Rightarrow> real \<Rightarrow> real \<Rightarrow> bool \<Rightarrow> nat \<Rightarrow> loopvars option" where
  "vars_at lib s thr rel_tol abs_tol verbose 0 =
     Some \<lparr>self = s, old_K = None, bound = None, out = []\<rparr>"
| "vars_at lib s thr rel_tol abs_tol verbose (Suc j) =
     (case vars_at lib s thr rel_tol abs_tol verbose j of
        None \<Rightarrow> None
      | Some lv \<Rightarrow>
          (case loop_body lib thr rel_tol abs_tol verbose (Suc j) lv of
             Inr (Continue lv') \<Rightarrow> Some lv'
           | _ \<Rightarrow> None))"

subsection \<open>Example instances\<close>

text \<open>Two samples \<open>0\<close> and \<open>2\<close> in one dimension, one component, unit priors: the instance
  after construction, and after one update.\<close>

definition kw1 :: kwargs where
  "kw1 = no_kwargs\<lparr>kw_alpha0 := Some (PyFloat 1), kw_beta0 := Some (PyFloat 1),
                    kw_nu0 := Some (PyFloat 1)\<rparr>"

definition sA :: vb where
  "sA = \<lparr>heap = [A3 1 1 [[[1]]], A3 1 1 [[[1]]]], variant = Raw,
        data = [[0], [2]], weights = [], L = 0, mu = [], sigma = [],
        Nomega = [], K = 1, N = 2, dim = 1, alpha0 = [1], alpha = [1],
        beta0 = [1], beta = [1], nu0 = [1], nu = [1], m0 = [[0]],
        m = [[- 1]], W0 = 0, inv_W0 = [[[1]]], W = 1, x_mean_comp = [[1]],
        N_comp = [2], inv_N_comp = [1 / 2], S = [[[1]]],
        expectation_gauss_exponent = [[2], [10]],
        expectation_det_ln_lambda = [- (1 / 2)], expectation_ln_pi = [0],
        log_rho = [[- (5 / 4)], [- (21 / 4)]], r = [[1], [1]]\<rparr>"

definition sB :: vb where
  "sB = \<lparr>heap = [A3 1 1 [[[1]]], A3 1 1 [[[3 / 11]]]], variant = Raw,
        data = [[0], [2]], weights = [], L = 0, mu = [], sigma = [],
        Nomega = [], K = 1, N = 2, dim = 1, alpha0 = [1], alpha = [3],
        beta0 = [1], beta = [3], nu0 = [1], nu = [3], m0 = [[0]],
        m = [[2 / 3]], W0 = 0, inv_W0 = [[[1]]], W = 1, x_mean_comp = [[1]],
        N_comp = [2], inv_N_comp = [1 / 2], S = [[[1]]],
        expectation_gauss_exponent = [[23 / 33], [59 / 33]],
        expectation_det_ln_lambda = [1 / 2], expectation_ln_pi = [0],
        log_rho = [[- (13 / 132)], [- (85 / 132)]], r = [[1], [1]]\<rparr>"

text \<open>The local variables of \<^verbatim>\<open>run\<close> on the first instance: at the start, and after the first
  pass with \<^verbatim>\<open>prune=1\<close>.\<close>

definition lvA :: loopvars where
  "lvA = \<lparr>self = sA, old_K = None, bound = None, out = []\<rparr>"

definition lvB :: loopvars where
  "lvB = \<lparr>self = sB, old_K = Some 1, bound = Some 0, out = []\<rparr>"

text \<open>Two samples \<open>0\<close> and \<open>1\<close>, two components, \<open>nu0 = 1/4\<close>: the instance after
  construction, after one update, and after \<^verbatim>\<open>prune(1)\<close>, which removes component \<open>0\<close>.\<close>

definition sC :: vb where
  "sC = \<lparr>heap = [A3 1 1 [[[1]], [[1]]], A3 1 1 [[[1]], [[1]]]], variant = Raw,
        data = [[0], [1]], weights = [], L = 0, mu = [], sigma = [],
        Nomega = [], K = 2, N = 2, dim = 1, alpha0 = [1, 1], alpha = [1, 1],
        beta0 = [1, 1], beta = [1, 1], nu0 = [1 / 4, 1 / 4],
        nu = [1 / 4, 1 / 4], m0 = [[0], [0]], m = [[- 1], [1]], W0 = 0,
        inv_W0 = [[[1]], [[1]]], W = 1, x_mean_comp = [[2 / 5], [4 / 7]],
        N_comp = [5 / 6, 7 / 6], inv_N_comp = [6 / 5, 6 / 7],
        S = [[[6 / 25]], [[12 / 49]]],
        expectation_gauss_exponent = [[5 / 4, 5 / 4], [2, 1]],
        expectation_det_ln_lambda = [- (7 / 8), - (7 / 8)],
        expectation_ln_pi = [- 1, - 1],
        log_rho = [[- (33 / 16), - (33 / 16)], [- (39 / 16), - (31 / 16)]],
        r = [[1 / 2, 1 / 2], [1 / 3, 2 / 3]]\<rparr>"

definition sD :: vb where
  "sD = \<lparr>heap = [A3 1 1 [[[1]], [[1]]], A3 1 1 [[[11 / 14]], [[13 / 19]]]],
        variant = Raw, data = [[0], [1]], weights = [], L = 0, mu = [],
        sigma = [], Nomega = [], K = 2, N = 2, dim = 1, alpha0 = [1, 1],
        alpha = [11 / 6, 13 / 6], beta0 = [1, 1], beta = [11 / 6, 13 / 6],
        nu0 = [1 / 4, 1 / 4], nu = [13 / 12, 17 / 12], m0 = [[0], [0]],
        m = [[2 / 11], [4 / 13]], W0 = 0, inv_W0 = [[[1]], [[1]]], W = 1,
        x_mean_comp = [[26700754995 / 56333364916], [1436184 / 2795291]],
        N_comp = [56333364916 / 81330321987, 106327279058 / 81330321987],
        inv_N_comp =
          [81330321987 / 56333364916, 81330321987 / 106327279058],
        S = [[[791213057363027305395 / 3173448002759219687056]],
             [[1951927727688 / 7813651774681]]],
        expectation_gauss_exponent =
          [[265 / 462, 410 / 741], [687 / 616, 915 / 988]],
        expectation_det_ln_lambda = [- (11 / 24), - (7 / 24)],
        expectation_ln_pi = [- (13 / 6), - (11 / 6)],
        log_rho =
          [[- (3305 / 1232), - (8915 / 3952)],
           [- (2729 / 924), - (28955 / 11856)]],
        r = [[21803 / 59841, 38038 / 59841],
             [446195 / 1359107, 912912 / 1359107]]\<rparr>"

definition sE :: vb where
  "sE = \<lparr>heap = [A3 1 1 [[[1]]], A3 1 1 [[[13 / 19]]]], variant = Raw,
        data = [[0], [1]], weights = [], L = 0, mu = [], sigma = [],
        Nomega = [], K = 1, N = 2, dim = 1, alpha0 = [1], alpha = [13 / 6],
        beta0 = [1], beta = [13 / 6], nu0 = [1 / 4], nu = [17 / 12],
        m0 = [[0]], m = [[4 / 13]], W0 = 0, inv_W0 = [[[1]]], W = 1,
        x_mean_comp = [[1 / 2]], N_comp = [2], inv_N_comp = [1 / 2],
        S = [[[1 / 4]]],
        expectation_gauss_exponent = [[410 / 741], [915 / 988]],
        expectation_det_ln_lambda = [- (7 / 24)], expectation_ln_pi = [0],
        log_rho = [[- (5009 / 11856)], [- (7219 / 11856)]], r = [[1], [1]]\<rparr>"

definition lvC :: loopvars where
  "lvC = \<lparr>self = sC, old_K = None, bound = None, out = []\<rparr>"

definition lvE :: loopvars where
  "lvE = \<lparr>self = sE, old_K = Some 2, bound = Some (106899402218009 / 1767795878709432),
           out = []\<rparr>"

subsection \<open>The output mixture, in the words of the specification\<close>

text \<open>Component \<open>k\<close> is included when its Dirichlet mode weight \<open>alpha_k - 1\<close> is positive,
  \<open>nu_k > D\<close>, and \<open>(nu_k - D) W_k\<close> has an inverse; it then contributes the weight
  \<open>alpha_k - 1\<close>, the mean \<open>m_k\<close> and that inverse as covariance.  Every other component
  is reported and left out.\<close>

definition mode_cov :: "numlib \<Rightarrow> vb \<Rightarrow> nat \<Rightarrow> mat \<Rightarrow> mat option" where
  "mode_cov lib s k Wk = linalg_inv lib (mat_scale (nu s ! k - real (dim s)) Wk)"

definition included :: "numlib \<Rightarrow> vb \<Rightarrow> nat \<times> mat \<Rightarrow> bool" where
  "included lib s = (\<lambda>(k, Wk). alpha s ! k - 1 > 0 \<and> nu s ! k > real (dim s)
                               \<and> mode_cov lib s k Wk \<noteq> None)"

definition report_of :: "vb \<Rightarrow> nat \<Rightarrow> report" where
  "report_of s k =
     (if alpha s ! k - 1 \<le> 0 then ZeroWeight k
      else if nu s ! k \<le> real (dim s) then ModeUndefined k
      else CouldNotCreate k)"

definition expected_mixture :: "numlib \<Rightarrow> vb \<Rightarrow> mixture \<times> report list" where
  "expected_mixture lib s =
     (let inc = filter (included lib s) (enumerate 0 (W_arr s));
          exc = filter (\<lambda>p. \<not> included lib s p) (enumerate 0 (W_arr s))
      in (MixtureDensity (map (\<lambda>(k, Wk). Gauss (m s ! k) (the (mode_cov lib s k Wk))) inc)
                         (map (\<lambda>(k, Wk). alpha s ! k - 1) inc),
          map (\<lambda>(k, Wk). report_of s k) exc
          @ (if exc = [] then [] else [SkippedComponents (map fst exc)])))"

text \<open>The first instance again, built with one and the same \<open>1 \<times> 1 \<times> 1\<close> array object
  passed as \<^verbatim>\<open>W0\<close> and as \<^verbatim>\<open>W\<close>, and after one update.\<close>

definition sA1 :: vb where "sA1 = sA\<lparr>heap := [A3 1 1 [[[1]]]], W := 0\<rparr>"
definition sB1 :: vb where "sB1 = sB\<lparr>heap := [A3 1 1 [[[3 / 11]]]], W := 0\<rparr>"

definition kw_shared :: kwargs where
  "kw_shared = kw1\<lparr>kw_W0 := Some 0, kw_W := Some 0\<rparr>"

subsection \<open>What is assumed of the exponential and of \<open>tiny\<close>\<close>



subsection \<open>The samples and their weights\<close>




section \<open>Properties\<close>

subsection \<open>Validation of the scalar-or-vector hyperparameters\<close>

lemma check_K_vector_A1:
  "check_K_vector k name (NDArray (A1 v)) mn =
     (case offence k name mn v of Some e \<Rightarrow> Inl e | None \<Rightarrow> Inr ())"
  by (simp add: offence_def)

lemma set_prior_vec:
  "set_prior k name (Some (NDArray (A1 v))) d mn =
     (case offence k name mn v of Some e \<Rightarrow> Inl e | None \<Rightarrow> Inr v)"
  by (simp add: set_prior_def offence_def bnd_def)

lemma offence_replicate: "mn < d \<Longrightarrow> offence k name mn (replicate k d) = None"
  by (simp add: offence_def list_all_iff)

lemma set_prior_None:
  "mn < d \<Longrightarrow> set_prior k name None d mn = Inr (replicate k d)"
  by (simp add: set_prior_def bnd_def list_all_iff)

lemma set_posterior_vec:
  "set_posterior k name (Some (NDArray (A1 v))) dflt mn =
     (case offence k name mn v of Some e \<Rightarrow> Inl e | None \<Rightarrow> Inr v)"
  by (simp add: set_posterior_def offence_def bnd_def)

lemma set_posterior_None:
  "offence k name mn dflt = None \<Longrightarrow> set_posterior k name None dflt mn = Inr dflt"
  by (simp add: set_posterior_def bnd_def offence_def split: if_splits)

lemma offence_name:
  "offence k n1 mn v = None \<Longrightarrow> offence k n2 mn (map (\<lambda>x. 1 * x) v) = None"
  "offence k n1 mn v = None \<Longrightarrow> offence k n2 mn (map (\<lambda>x. x * 1) v) = None"
  by (auto simp: offence_def split: if_splits)

lemma set_prior_cases:
  assumes "vector_or_absent arg" "mn < d"
  shows "(\<exists>e. first_offence k [(name, mn, arg)] = Some e \<and> set_prior k name arg d mn = Inl e)
       \<or> (first_offence k [(name, mn, arg)] = None \<and>
           (\<exists>v. set_prior k name arg d mn = Inr v \<and> offence k name' mn v = None))"
  using assms
  by (cases arg rule: vector_or_absent.cases)
     (auto simp: set_prior_None set_prior_vec offence_replicate offence_def list_all_iff
           split: option.splits if_splits)

lemma set_posterior_cases:
  assumes "vector_or_absent arg" "offence k name' mn dflt = None"
  shows "(\<exists>e. first_offence k [(name, mn, arg)] = Some e \<and> set_posterior k name arg dflt mn = Inl e)
       \<or> (first_offence k [(name, mn, arg)] = None \<and>
           (\<exists>v. set_posterior k name arg dflt mn = Inr v \<and> offence k name'' mn v = None))"
  using assms
  by (cases arg rule: vector_or_absent.cases)
     (auto simp: set_posterior_None set_posterior_vec offence_def split: option.splits if_splits)

lemma first_offence_Cons:
  "first_offence k (x # rest) =
     (case first_offence k [x] of Some e \<Rightarrow> Some e | None \<Rightarrow> first_offence k rest)"
  by (cases "(k, x # rest)" rule: first_offence.cases) (auto split: option.splits)

lemma stage_prior:
  assumes "vector_or_absent arg" and "mn < d"
    and "first_offence k ((name, mn, arg) # rest) = Some e"
    and "\<And>v. offence k name' mn v = None \<Longrightarrow> first_offence k rest = Some e \<Longrightarrow> f v = Inl e"
  shows "bnd (set_prior k name arg d mn) f = Inl e"
  using set_prior_cases [OF assms(1,2), of k name name'] assms(3,4)
  by (subst (asm) first_offence_Cons) (auto simp: bnd_def)

lemma stage_posterior:
  assumes "vector_or_absent arg" and "offence k name' mn dflt = None"
    and "first_offence k ((name, mn, arg) # rest) = Some e"
    and "\<And>v. offence k name'' mn v = None \<Longrightarrow> first_offence k rest = Some e \<Longrightarrow> f v = Inl e"
  shows "bnd (set_posterior k name arg dflt mn) f = Inl e"
  using set_posterior_cases [OF assms(1,2), of name name''] assms(3,4)
  by (subst (asm) first_offence_Cons) (auto simp: bnd_def)

lemma svp_first_offence:
  assumes "vector_kwargs kw" and "first_offence (K s) (hyper_args s kw) = Some e"
  shows "set_variational_parameters lib s False kw = Inl e"
  unfolding set_variational_parameters_def if_False Let_def
  apply (rule stage_prior [where name' = "''alpha0''" and rest = "tl (hyper_args s kw)"])
  using assms apply (simp_all add: vector_kwargs_def hyper_args_def)
  apply (rule stage_posterior [where name' = "''alpha0''" and name'' = "''alpha''"])
  apply (simp_all add: offence_name)
  apply (rule stage_prior [where name' = "''beta0''"])
  apply (simp_all)
  apply (rule stage_posterior [where name' = "''beta0''" and name'' = "''beta''"])
  apply (simp_all add: offence_name)
  apply (rule stage_prior [where name' = "''nu0''"])
  apply (simp_all)
  apply (rule stage_posterior [where name' = "''nu0''" and name'' = "''nu''"])
  apply (simp_all add: offence_name)
  apply simp
  done

lemma GaussianInference_svp_error:
  assumes "set_variational_parameters lib
             (unassigned\<lparr>heap := h, data := rows, K := comps, N := length rows, dim := d\<rparr>)
             False kw = Inl e"
  shows "GaussianInference lib h (A2 d rows) comps None kw = Inl e"
  using assms by (simp add: GaussianInference_def bnd_def Let_def)

text \<open>Where the code does name the offending array: construction with keyword arguments
  that are 1-d arrays (or absent) fails with the error of the first offending one of
  \<open>alpha0, alpha, beta0, beta\<close> (minimum \<open>0\<close>) and \<open>nu0, nu\<close> (minimum \<open>D - 1\<close>); and
  whatever the check of a prior, given in any form, or of a posterior given as an array
  raises, carries the name of the parameter.\<close>

lemma vector_kwargs_first_offence:
  assumes "vector_kwargs kw"
    and "first_offence comps
        (hyper_args (unassigned\<lparr>heap := h, data := rows, K := comps, N := length rows, dim := d\<rparr>) kw)
        = Some e"
  shows "GaussianInference lib h (A2 d rows) comps None kw = Inl e"
proof -
  let ?s = "unassigned\<lparr>heap := h, data := rows, K := comps, N := length rows, dim := d\<rparr>"
  from assms have "set_variational_parameters lib ?s False kw = Inl e"
    using svp_first_offence [of kw ?s e lib] by simp
  then show ?thesis
    by (rule GaussianInference_svp_error)
qed

lemma check_K_vector_array_named:
  "check_K_vector k name (NDArray a) mn = Inl e \<Longrightarrow> array_named e = Some name"
  by (cases a) (auto split: if_splits)

lemma set_prior_array_named:
  "set_prior k name arg dflt mn = Inl e \<Longrightarrow> array_named e = Some name"
proof -
  assume a: "set_prior k name arg dflt mn = Inl e"
  define v0 where "v0 = (case arg of None \<Rightarrow> PyFloat dflt | Some v \<Rightarrow> v)"
  define v1 where "v1 = (if \<not> np_iterable v0 then times_ones v0 k else np_array v0)"
  have "\<exists>b. v1 = NDArray b"
    unfolding v1_def by (cases v0 rule: np_iterable.cases) auto
  then obtain b where b: "v1 = NDArray b" by blast
  from a have "check_K_vector k name v1 mn = Inl e"
    by (auto simp: set_prior_def v0_def v1_def bnd_def Let_def split: sum.splits)
  then show ?thesis
    unfolding b by (rule check_K_vector_array_named)
qed

lemma set_posterior_array_named:
  "set_posterior k name (Some (NDArray a)) dflt mn = Inl e \<Longrightarrow> array_named e = Some name"
  by (auto simp: set_posterior_def bnd_def Let_def split: sum.splits
      dest: check_K_vector_array_named)

text \<open>C5.  The initial value of a posterior parameter reaches \<^verbatim>\<open>_check_K_vector\<close> as it is
  given, before \<^verbatim>\<open>_np.array\<close>.  Given as a Python list, a vector for \<open>alpha\<close> of length
  \<open>K - 1\<close>, a vector for \<open>beta\<close> with a negative entry, and a vector for \<open>nu\<close> with an
  entry equal to \<open>D - 1\<close> all fail on \<^verbatim>\<open>v.shape\<close> with an \<^verbatim>\<open>AttributeError\<close>, which names
  no array and no expected length; and a well-formed list for \<open>alpha\<close> fails the same way
  before the offending \<open>beta0\<close> behind it is looked at.  The same list given for the
  prior \<open>alpha0\<close>, and the same vectors given as arrays, get the error that names them.\<close>

theorem posterior_list_error_names_no_array:
  "GaussianInference lib [] (A2 1 [[0], [1]]) 2 None (no_kwargs\<lparr>kw_alpha := Some (PyList [1])\<rparr>)
     = Inl (AttributeError ''shape'')
   \<and> GaussianInference lib [] (A2 1 [[0], [1]]) 2 None (no_kwargs\<lparr>kw_beta := Some (PyList [- 1, 1])\<rparr>)
     = Inl (AttributeError ''shape'')
   \<and> GaussianInference lib [] (A2 1 [[0], [1]]) 2 None (no_kwargs\<lparr>kw_nu := Some (PyList [0, 1])\<rparr>)
     = Inl (AttributeError ''shape'')
   \<and> GaussianInference lib [] (A2 1 [[0], [1]]) 2 None
        (no_kwargs\<lparr>kw_alpha := Some (PyList [1, 1]), kw_beta0 := Some (NDArray (A1 [1]))\<rparr>)
     = Inl (AttributeError ''shape'')
   \<and> array_named (AttributeError ''shape'') = None
   \<and> GaussianInference lib [] (A2 1 [[0], [1]]) 2 None (no_kwargs\<lparr>kw_alpha0 := Some (PyList [1])\<rparr>)
     = Inl (LenMismatch ''alpha0'' 1 2)
   \<and> GaussianInference lib [] (A2 1 [[0], [1]]) 2 None (no_kwargs\<lparr>kw_alpha := Some (NDArray (A1 [1]))\<rparr>)
     = Inl (LenMismatch ''alpha'' 1 2)
   \<and> GaussianInference lib [] (A2 1 [[0], [1]]) 2 None (no_kwargs\<lparr>kw_beta0 := Some (NDArray (A1 [1]))\<rparr>)
     = Inl (LenMismatch ''beta0'' 1 2)"
  by (simp add: GaussianInference_def set_variational_parameters_def unassigned_def no_kwargs_def
        set_prior_def set_posterior_def set_m0_def set_m_def bnd_def Let_def list_all_iff)

text \<open>C4.  The initial value of a posterior parameter is checked as it is given, before
  \<^verbatim>\<open>_np.array\<close> and without the promotion that the prior gets: a Python number for
  \<open>alpha\<close> has no shape, a 0-d array is not a vector, and a single \<open>D\<close>-vector for \<open>m\<close>
  is not stacked.  Each of the three constructions fails, where the prior of the same
  kind is broadcast.\<close>

theorem posterior_single_value_not_broadcast:
  "GaussianInference lib [] (A2 1 [[0], [1]]) 2 None (no_kwargs\<lparr>kw_alpha := Some (PyFloat 1)\<rparr>)
     = Inl (AttributeError ''shape'')
   \<and> GaussianInference lib [] (A2 1 [[0], [1]]) 2 None (no_kwargs\<lparr>kw_alpha := Some (NDArray (A0 1))\<rparr>)
     = Inl (NotAVector ''alpha'' [])
   \<and> GaussianInference lib [] (A2 1 [[0], [1]]) 2 None (no_kwargs\<lparr>kw_m := Some (A1 [5])\<rparr>)
     = Inl (ShapeMismatch ''m'' [1] [2, 1])"
  by (simp add: GaussianInference_def set_variational_parameters_def unassigned_def no_kwargs_def
        set_prior_def set_posterior_def set_m0_def set_m_def bnd_def Let_def list_all_iff)

subsection \<open>The loop of \<^verbatim>\<open>run\<close>\<close>

lemma vars_at_Suc:
  assumes "vars_at lib s thr rtl atl vb (Suc j) = Some lv"
  obtains lv0 where "vars_at lib s thr rtl atl vb j = Some lv0"
    and "loop_body lib thr rtl atl vb (Suc j) lv0 = Inr (Continue lv)"
  using assms by (auto split: option.splits sum.splits outcome.splits)

lemma run_loop_vars_at:
  "vars_at lib s thr rtl atl vb j = Some lv \<Longrightarrow>
   run lib s (j + n) thr rtl atl vb = run_loop lib thr rtl atl vb (Suc j) n lv"
proof (induction j arbitrary: lv n)
  case 0
  then show ?case by (simp add: run_def)
next
  case (Suc j)
  from Suc.prems obtain lv0 where a: "vars_at lib s thr rtl atl vb j = Some lv0"
    and b: "loop_body lib thr rtl atl vb (Suc j) lv0 = Inr (Continue lv)"
    by (rule vars_at_Suc)
  have "run lib s (j + Suc n) thr rtl atl vb = run_loop lib thr rtl atl vb (Suc j) (Suc n) lv0"
    by (rule Suc.IH [OF a])
  also have "\<dots> = run_loop lib thr rtl atl vb (Suc (Suc j)) n lv"
    using b by simp
  finally show ?case by simp
qed

lemma loop_body_eval:
  assumes "old_bound_of lib lv = Inr ob" and "update lib (self lv) = Inr s1"
    and "likelihood_bound lib s1 = Inr b"
  shows "loop_body lib thr rtl atl vb i lv =
     (let lv1 = lv\<lparr>self := s1, bound := Some b,
            out := (let o1 = (if Some (K (self lv)) \<noteq> old_K lv \<and> vb
                              then out lv @ [NewBound ob (K (self lv)) (N_comp (self lv))] else out lv);
                        o2 = (if vb then o1 @ [AfterUpdate i b (K s1) (N_comp s1)] else o1)
                    in if b < ob then o2 @ [BoundDecreased ob b] else o2)\<rparr>
      in if b = ob \<or> approx_converged b ob rtl atl then Inr (Return i lv1)
         else bnd (prune lib thr s1) (\<lambda>s2. Inr (Continue (lv1\<lparr>self := s2, old_K := Some (K s1)\<rparr>))))"
  using assms by (simp add: loop_body_def bnd_def Let_def)

lemma loop_body_Return_iff:
  assumes "old_bound_of lib lv = Inr ob" and "update lib (self lv) = Inr s1"
    and "likelihood_bound lib s1 = Inr b"
  shows "(\<exists>lv'. loop_body lib thr rtl atl vb i lv = Inr (Return i lv')) \<longleftrightarrow>
         (b = ob \<or> approx_converged b ob rtl atl)"
  unfolding loop_body_eval [OF assms]
  by (auto simp: Let_def bnd_def split: sum.splits)

lemma loop_body_Return_index:
  "loop_body lib thr rtl atl vb i lv = Inr (Return j lv') \<Longrightarrow> j = i"
  by (auto simp: loop_body_def bnd_def Let_def split: sum.splits if_splits)

lemma loop_body_Continue:
  assumes "loop_body lib thr rtl atl vb i lv = Inr (Continue lv')"
  obtains ob s1 b where "old_bound_of lib lv = Inr ob" and "update lib (self lv) = Inr s1"
    and "likelihood_bound lib s1 = Inr b" and "b \<noteq> ob" and "\<not> approx_converged b ob rtl atl"
    and "prune lib thr s1 = Inr (self lv')" and "old_K lv' = Some (K s1)" and "bound lv' = Some b"
  using assms
  by (auto simp: loop_body_def bnd_def Let_def split: sum.splits if_splits)

lemma run_loop_result_range:
  "run_loop lib thr rtl atl vb i n lv = Inr (Some j, lv') \<Longrightarrow> i \<le> j \<and> j < i + n"
proof (induction n arbitrary: i lv)
  case 0
  then show ?case by simp
next
  case (Suc n)
  show ?case
  proof (cases "loop_body lib thr rtl atl vb i lv")
    case (Inl e)
    with Suc.prems show ?thesis by simp
  next
    case (Inr oc)
    show ?thesis
    proof (cases oc)
      case (Return j' lv1)
      with Inr Suc.prems have "j' = j" by simp
      moreover from Inr Return have "j' = i" by (auto dest: loop_body_Return_index)
      ultimately show ?thesis by simp
    next
      case (Continue lv1)
      with Inr Suc.prems have "run_loop lib thr rtl atl vb (Suc i) n lv1 = Inr (Some j, lv')"
        by simp
      from Suc.IH [OF this] show ?thesis by simp
    qed
  qed
qed

subsection \<open>Running the model on the example instances\<close>

lemmas eval_defs = update_def M_step_def E_step_def update_W_def update_m_def cov_W_def
  update_expectation_det_ln_lambda_def update_expectation_gauss_exponent_def
  update_expectation_ln_pi_def update_r_def update_log_rho_def softmax_row_def maximum_def
  regularize_def update_N_comp_def update_x_mean_comp_def update_S_def scatter_def mat_sum_def
  weighted_rows_def column_def dot_def vec_add_def vec_sub_def vec_scale_def mat_add_def
  mat_scale_def quad_def vec_mat_def outer_def zeros2_def trace_def mat_mul_def bnd_def
  W_arr_def W0_arr_def Let_def

lemmas bound_defs = likelihood_bound_def expectation_log_p_X_def expectation_log_p_Z_def
  expectation_log_p_pi_def expectation_log_p_mu_lambda_def expectation_log_q_Z_def
  expectation_log_q_pi_def expectation_log_q_mu_lambda_def Dirichlet_log_C_def
  Wishart_log_B_def Wishart_expect_log_lambda_def Wishart_H_def math_log_def

lemmas prune_defs = prune_def compact_def components_to_survive_def cut_def reindex_def
  move_def move_col_def

lemma sA_parameters: "set_variational_parameters lib1
   (unassigned\<lparr>heap := [], data := [[0], [2]], K := 1, N := 2, dim := 1\<rparr>) False kw1 =
   Inr (unassigned\<lparr>heap := [A3 1 1 [[[1]]], A3 1 1 [[[1]]]], data := [[0], [2]], K := 1, N := 2, dim := 1,
         alpha0 := [1], alpha := [1], beta0 := [1], beta := [1], nu0 := [1], nu := [1],
         m0 := [[0]], m := [[-1]], W0 := 0, inv_W0 := [[[1]]], W := 1\<rparr>)"
  by (simp add: set_variational_parameters_def unassigned_def no_kwargs_def kw1_def
        set_prior_def set_posterior_def set_m0_def set_m_def set_W0_def set_W_def stack_W0_def stack_K_def
        eye_def linspace_def reshape2_def bnd_def Let_def lib1_def)

lemma sA_first_E_step: "E_step lib1 ((initialize_output (unassigned\<lparr>heap := [A3 1 1 [[[1]]], A3 1 1 [[[1]]]], data := [[0], [2]], K := 1, N := 2, dim := 1,
         alpha0 := [1], alpha := [1], beta0 := [1], beta := [1], nu0 := [1], nu := [1],
         m0 := [[0]], m := [[-1]], W0 := 0, inv_W0 := [[[1]]], W := 1\<rparr>))\<lparr>expectation_gauss_exponent := zeros2 2 1\<rparr>) = Inr sA"
  by (simp add: initialize_output_def unassigned_def eval_defs lib1_def sA_def upt_rec)

lemma sA_constructed: "GaussianInference lib1 [] (A2 1 [[0], [2]]) 1 None kw1 = Inr sA"
  using sA_parameters sA_first_E_step by (simp add: GaussianInference_def bnd_def numeral_2_eq_2)

lemma update_sA: "update lib1 sA = Inr sB"
  by (simp add: eval_defs lib1_def sA_def sB_def upt_rec)

lemma update_sB: "update lib1 sB = Inr sB"
  by (simp add: eval_defs lib1_def sB_def upt_rec)

lemma bound_sA: "likelihood_bound lib1 sA = Inr (- 7)"
  by (simp add: bound_defs eval_defs lib1_def sA_def upt_rec)

lemma bound_sB: "likelihood_bound lib1 sB = Inr 0"
  by (simp add: bound_defs eval_defs lib1_def sB_def upt_rec)

lemma prune_sB: "prune lib1 1 sB = Inr sB"
  by (simp add: prune_defs eval_defs lib1_def sB_def upt_rec)

lemma update_sC: "update lib1 sC = Inr sD"
  by (simp add: eval_defs lib1_def sC_def sD_def upt_rec)

lemma bound_sC: "likelihood_bound lib1 sC = Inr (- (53 / 12))"
  by (simp add: bound_defs eval_defs lib1_def sC_def upt_rec)

lemma bound_sD: "likelihood_bound lib1 sD = Inr (106899402218009 / 1767795878709432)"
  by (simp add: bound_defs eval_defs lib1_def sD_def upt_rec)

lemma prune_sD: "prune lib1 1 sD = Inr sE"
  by (simp add: prune_defs eval_defs lib1_def sD_def sE_def upt_rec)

lemma bound_sE: "likelihood_bound lib1 sE = Inr (- (29465 / 71136))"
  by (simp add: bound_defs eval_defs lib1_def sE_def upt_rec)

lemma old_bound_lvA: "old_bound_of lib1 lvA = Inr (- 7)"
  by (simp add: old_bound_of_def lvA_def bound_sA)

lemma old_bound_lvB: "old_bound_of lib1 lvB = Inr 0"
  by (simp add: old_bound_of_def lvB_def sB_def)

lemma pass1_lvA: "loop_body lib1 1 (1 / 10000) (1 / 1000) False 1 lvA = Inr (Continue lvB)"
proof -
  have u: "update lib1 (self lvA) = Inr sB"
    by (simp add: lvA_def update_sA)
  have k: "K sB = 1" by (simp add: sB_def)
  show ?thesis
    unfolding loop_body_eval [OF old_bound_lvA u bound_sB]
    by (simp add: approx_converged_def prune_sB bnd_def lvA_def lvB_def k)
qed

lemma vars_at_1: "vars_at lib1 sA 1 (1 / 10000) (1 / 1000) False 1 = Some lvB"
  using pass1_lvA by (simp add: lvA_def)

lemma prune_all_sB:
  "prune lib1 3 sB = Inl (ValueError ''zero-size array to reduction operation maximum which has no identity'')"
  by (simp add: prune_defs eval_defs lib1_def sB_def upt_rec)

lemma pass1_raises:
  "loop_body lib1 3 (1 / 10000) (1 / 1000) False 1 lvA
     = Inl (ValueError ''zero-size array to reduction operation maximum which has no identity'')"
proof -
  have u: "update lib1 (self lvA) = Inr sB"
    by (simp add: lvA_def update_sA)
  show ?thesis
    unfolding loop_body_eval [OF old_bound_lvA u bound_sB]
    by (simp add: approx_converged_def prune_all_sB bnd_def)
qed

subsection \<open>What the E-step and the M-step leave alone\<close>

lemma det_ln_lambda_Inr:
  "update_expectation_det_ln_lambda lib s = Inr s' \<Longrightarrow> \<exists>a. s' = s\<lparr>expectation_det_ln_lambda := a\<rparr>"
  by (auto simp: update_expectation_det_ln_lambda_def Let_def split: if_splits)

lemma gauss_exponent_Inr:
  "update_expectation_gauss_exponent s = Inr s' \<Longrightarrow> \<exists>a. s' = s\<lparr>expectation_gauss_exponent := a\<rparr>"
  by (cases "variant s") (auto simp: update_expectation_gauss_exponent_def split: if_splits)

lemma log_rho_eq: "\<exists>a. update_log_rho lib s = s\<lparr>log_rho := a\<rparr>"
  by (cases "variant s") (auto simp: update_log_rho_def Let_def)

lemma r_Inr: "update_r lib s = Inr s' \<Longrightarrow> \<exists>a b. s' = s\<lparr>log_rho := a, r := b\<rparr>"
proof -
  assume a: "update_r lib s = Inr s'"
  obtain d where d: "update_log_rho lib s = s\<lparr>log_rho := d\<rparr>"
    using log_rho_eq by blast
  from a show ?thesis
    unfolding update_r_def d Let_def by (auto split: if_splits)
qed

lemma N_comp_eq: "\<exists>a b. update_N_comp lib s = s\<lparr>N_comp := a, inv_N_comp := b\<rparr>"
  by (auto simp: update_N_comp_def Let_def)

lemma x_mean_comp_eq: "\<exists>a. update_x_mean_comp s = s\<lparr>x_mean_comp := a\<rparr>"
  by (auto simp: update_x_mean_comp_def Let_def)

lemma S_Inr: "update_S s = Inr s' \<Longrightarrow> \<exists>a. s' = s\<lparr>S := a\<rparr>"
  by (auto simp: update_S_def split: if_splits)

text \<open>The E-step writes the expectation caches, the responsibilities and the sufficient
  statistics, and nothing else.\<close>

lemma E_step_writes:
  assumes "E_step lib s = Inr s'"
  shows "\<exists>a b c d e f g h i. s' = s\<lparr>expectation_det_ln_lambda := a,
           expectation_gauss_exponent := b, expectation_ln_pi := c, log_rho := d, r := e,
           N_comp := f, inv_N_comp := g, x_mean_comp := h, S := i\<rparr>"
proof -
  from assms obtain s1 s2 s3 where
    1: "update_expectation_det_ln_lambda lib s = Inr s1" and
    2: "update_expectation_gauss_exponent s1 = Inr s2" and
    3: "update_r lib (update_expectation_ln_pi lib s2) = Inr s3" and
    4: "update_S (update_x_mean_comp (update_N_comp lib s3)) = Inr s'"
    by (auto simp: E_step_def bnd_def split: sum.splits)
  from 1 obtain a where a: "s1 = s\<lparr>expectation_det_ln_lambda := a\<rparr>"
    using det_ln_lambda_Inr by blast
  from 2 obtain b where b: "s2 = s1\<lparr>expectation_gauss_exponent := b\<rparr>"
    using gauss_exponent_Inr by blast
  from 3 obtain d e where d: "s3 = (update_expectation_ln_pi lib s2)\<lparr>log_rho := d, r := e\<rparr>"
    using r_Inr by blast
  obtain f g where f: "update_N_comp lib s3 = s3\<lparr>N_comp := f, inv_N_comp := g\<rparr>"
    using N_comp_eq by blast
  obtain h where h: "update_x_mean_comp (s3\<lparr>N_comp := f, inv_N_comp := g\<rparr>)
      = s3\<lparr>N_comp := f, inv_N_comp := g, x_mean_comp := h\<rparr>"
    using x_mean_comp_eq [of "s3\<lparr>N_comp := f, inv_N_comp := g\<rparr>"] by auto
  from 4 obtain i where i: "s' = s3\<lparr>N_comp := f, inv_N_comp := g, x_mean_comp := h, S := i\<rparr>"
    unfolding f h using S_Inr by fastforce
  show ?thesis
    unfolding i d b a update_expectation_ln_pi_def by (simp, intro exI, rule refl)
qed

lemma K_E_step: "E_step lib s = Inr s' \<Longrightarrow> K s' = K s"
  by (drule E_step_writes) auto

lemma K_update_W_loop: "update_W_loop lib ks s = Inr s' \<Longrightarrow> K s' = K s"
  by (induction ks arbitrary: s) (auto split: option.splits)

lemma K_M_step: "M_step lib s = Inr s' \<Longrightarrow> K s' = K s"
  by (auto simp: M_step_def update_W_def update_m_def Let_def dest!: K_update_W_loop)

lemma K_update: "update lib s = Inr s' \<Longrightarrow> K s' = K s"
  using K_M_step K_E_step
  by (fastforce simp: update_def bnd_def split: sum.splits)

subsection \<open>The convergence test\<close>

text \<open>C1 (as amended).  In a pass of \<^verbatim>\<open>run\<close> whose new bound \<open>b\<close> differs from the baseline
  \<open>ob\<close>, convergence is declared only when the bound increased (\<open>b - ob > 0\<close>), and then
  exactly when: if \<open>|b| < abs_tol\<close> then \<open>|b - ob| < abs_tol\<close>, otherwise
  \<open>|(b - ob) / b| < rel_tol\<close>, which a new bound of \<open>0\<close> fails, the quotient being infinite.
  Both tests look at the new bound \<open>b\<close>, computed after the update, and which of the two
  applies is decided by \<open>|b| < abs_tol\<close>.\<close>

theorem approximate_convergence_uses_new_bound:
  assumes "old_bound_of lib lv = Inr ob" and "update lib (self lv) = Inr s1"
    and "likelihood_bound lib s1 = Inr b" and "b \<noteq> ob"
  shows "(\<exists>lv'. loop_body lib thr rtl atl vb i lv = Inr (Return i lv')) \<longleftrightarrow>
         (b - ob > 0 \<and> (if \<bar>b\<bar> < atl then \<bar>b - ob\<bar> < atl
                          else b \<noteq> 0 \<and> \<bar>(b - ob) / b\<bar> < rtl))"
  using loop_body_Return_iff [OF assms(1-3), of thr rtl atl vb i] assms(4)
  by (simp add: approx_converged_def Let_def)

text \<open>The first pass on the example instance, where the bound rises from \<open>-7\<close> to \<open>0\<close>: with
  \<open>abs_tol = 10\<close> convergence is declared; with \<open>abs_tol = 0\<close> the relative test is the one
  that applies, it divides by the new bound \<open>0\<close>, and the pass does not return.\<close>

theorem approximate_convergence_uses_new_bound_witness:
  "(\<exists>lv'. loop_body lib1 1 (1 / 10000) 10 False 1 \<lparr>self = sA, old_K = None, bound = None, out = []\<rparr>
       = Inr (Return 1 lv'))
   \<and> \<not> (\<exists>lv'. loop_body lib1 1 (1 / 10000) 0 False 1
                \<lparr>self = sA, old_K = None, bound = None, out = []\<rparr> = Inr (Return 1 lv'))
   \<and> likelihood_bound lib1 sA = Inr (- 7) \<and> update lib1 sA = Inr sB
   \<and> likelihood_bound lib1 sB = Inr 0"
proof -
  let ?lv = "\<lparr>self = sA, old_K = None, bound = None, out = []\<rparr>"
  have a: "old_bound_of lib1 ?lv = Inr (- 7)"
    by (simp add: old_bound_of_def bound_sA)
  have b: "update lib1 (self ?lv) = Inr sB"
    by (simp add: update_sA)
  have c: "(0::real) \<noteq> - 7" by simp
  from approximate_convergence_uses_new_bound [OF a b bound_sB c, of 1 "1 / 10000" 10 False 1]
  have d: "\<exists>lv'. loop_body lib1 1 (1 / 10000) 10 False 1 ?lv = Inr (Return 1 lv')"
    by simp
  from approximate_convergence_uses_new_bound [OF a b bound_sB c, of 1 "1 / 10000" 0 False 1]
  have e: "\<not> (\<exists>lv'. loop_body lib1 1 (1 / 10000) 0 False 1 ?lv = Inr (Return 1 lv'))"
    by simp
  from d e show ?thesis by (simp add: bound_sA update_sA bound_sB)
qed

text \<open>C1 as stated, with the baseline in place of the new bound and a disjunction of the
  two tests, is not what the code computes.
  \<^item> With \<open>rel_tol = 0.6\<close> and \<open>abs_tol = 0.001\<close>, from baseline \<open>1\<close> to bound \<open>2\<close>: the code
    declares convergence (\<open>1/2 < 0.6\<close>), the stated criterion does not (\<open>1/1 \<ge> 0.6\<close>).
  \<^item> With the same tolerances, from baseline \<open>-2\<close> to bound \<open>-1\<close>: the code does not
    (\<open>1/1 \<ge> 0.6\<close>), the stated criterion does (\<open>1/2 < 0.6\<close>).
  \<^item> With \<open>rel_tol = 10\<close> and \<open>abs_tol = 1\<close>, from baseline \<open>-1/2\<close> to bound \<open>1/2\<close>: the new
    bound is below \<open>abs_tol\<close>, so the code applies the absolute test alone, which fails
    (\<open>1 \<ge> 1\<close>), and goes on; the disjunction accepts by its relative test (\<open>2 < 10\<close>),
    with the baseline as stated and with the new bound in its place alike.\<close>

theorem approximate_convergence_baseline_counterexample:
  "approx_converged 2 1 (6 / 10) (1 / 1000)
   \<and> \<not> ((2::real) - 1 > 0 \<and>
         (\<bar>1::real\<bar> < 1 / 1000 \<and> \<bar>(2::real) - 1\<bar> < 1 / 1000 \<or> \<bar>((2::real) - 1) / 1\<bar> < 6 / 10))
   \<and> \<not> approx_converged (- 1) (- 2) (6 / 10) (1 / 1000)
   \<and> ((- 1::real) - (- 2) > 0 \<and>
         (\<bar>- 2::real\<bar> < 1 / 1000 \<and> \<bar>(- 1::real) - (- 2)\<bar> < 1 / 1000
          \<or> \<bar>((- 1::real) - (- 2)) / (- 2)\<bar> < 6 / 10))
   \<and> \<not> approx_converged (1 / 2) (- (1 / 2)) 10 1
   \<and> ((1 / 2::real) - (- (1 / 2)) > 0 \<and>
         (\<bar>- (1 / 2)::real\<bar> < 1 \<and> \<bar>(1 / 2::real) - (- (1 / 2))\<bar> < 1
          \<or> \<bar>((1 / 2::real) - (- (1 / 2))) / (- (1 / 2))\<bar> < 10))
   \<and> ((1 / 2::real) - (- (1 / 2)) > 0 \<and>
         (\<bar>1 / 2::real\<bar> < 1 \<and> \<bar>(1 / 2::real) - (- (1 / 2))\<bar> < 1
          \<or> \<bar>((1 / 2::real) - (- (1 / 2))) / (1 / 2)\<bar> < 10))"
  by (simp add: approx_converged_def)

subsection \<open>What \<^verbatim>\<open>run\<close> returns, and its baseline\<close>

lemma pass1_lvC: "loop_body lib1 1 (1 / 10000) (1 / 1000) False 1 lvC = Inr (Continue lvE)"
proof -
  have ob: "old_bound_of lib1 lvC = Inr (- (53 / 12))"
    by (simp add: old_bound_of_def lvC_def bound_sC)
  have u: "update lib1 (self lvC) = Inr sD"
    by (simp add: lvC_def update_sC)
  have k: "K sD = 2" by (simp add: sD_def)
  show ?thesis
    unfolding loop_body_eval [OF ob u bound_sD]
    by (simp add: approx_converged_def prune_sD bnd_def lvC_def lvE_def k)
qed

lemma vars_at_1_sC: "vars_at lib1 sC 1 (1 / 10000) (1 / 1000) False 1 = Some lvE"
  using pass1_lvC by (simp add: lvC_def)

lemma run_loop_Inl:
  "vars_at lib s thr rtl atl vb j = Some lv \<Longrightarrow>
   run_loop lib thr rtl atl vb (Suc j) n lv = Inl e \<Longrightarrow>
   \<exists>j' lv'. j \<le> j' \<and> j' < j + n \<and> vars_at lib s thr rtl atl vb j' = Some lv'
     \<and> loop_body lib thr rtl atl vb (Suc j') lv' = Inl e"
proof (induction n arbitrary: j lv)
  case 0
  then show ?case by simp
next
  case (Suc n)
  show ?case
  proof (cases "loop_body lib thr rtl atl vb (Suc j) lv")
    case (Inl e')
    with Suc.prems have "e' = e" by simp
    with Inl Suc.prems(1) show ?thesis by auto
  next
    case (Inr oc)
    show ?thesis
    proof (cases oc)
      case (Return i lv1)
      with Inr Suc.prems show ?thesis by simp
    next
      case (Continue lv1)
      with Inr Suc.prems have r: "run_loop lib thr rtl atl vb (Suc (Suc j)) n lv1 = Inl e"
        by simp
      from Inr Continue Suc.prems(1) have v: "vars_at lib s thr rtl atl vb (Suc j) = Some lv1"
        by simp
      from Suc.IH [OF v r] obtain j' lv' where "Suc j \<le> j'" "j' < Suc j + n"
        "vars_at lib s thr rtl atl vb j' = Some lv'"
        "loop_body lib thr rtl atl vb (Suc j') lv' = Inl e"
        by blast
      then show ?thesis
        by (intro exI [of _ j'] exI [of _ lv']) simp
    qed
  qed
qed

text \<open>C6.  \<^verbatim>\<open>run\<close> returns the number \<open>j + 1\<close> of the pass in which the new bound equals
  the baseline exactly, with \<open>1 \<le> j + 1 \<le> iterations\<close>, the instance being the one
  after that update; when every pass up to the cap has gone on to the next, it returns
  \<^verbatim>\<open>None\<close>; a number it returns lies between \<open>1\<close> and \<open>iterations\<close>; and it raises only
  what a pass raised.\<close>

theorem run_returns_count_or_None:
  "(vars_at lib s thr rtl atl vb j = Some lv \<longrightarrow> Suc j \<le> iterations \<longrightarrow>
      old_bound_of lib lv = Inr ob \<longrightarrow> update lib (self lv) = Inr s1 \<longrightarrow>
      likelihood_bound lib s1 = Inr ob \<longrightarrow>
      (\<exists>lv'. run lib s iterations thr rtl atl vb = Inr (Some (Suc j), lv') \<and> self lv' = s1))
   \<and> (vars_at lib s thr rtl atl vb iterations = Some lv \<longrightarrow>
      run lib s iterations thr rtl atl vb = Inr (None, lv))
   \<and> (run lib s iterations thr rtl atl vb = Inr (Some i, lv2) \<longrightarrow> 1 \<le> i \<and> i \<le> iterations)
   \<and> (run lib s iterations thr rtl atl vb = Inl e \<longrightarrow>
      (\<exists>j' lv'. j' < iterations \<and> vars_at lib s thr rtl atl vb j' = Some lv'
         \<and> loop_body lib thr rtl atl vb (Suc j') lv' = Inl e))"
proof (intro conjI impI)
  assume v: "vars_at lib s thr rtl atl vb j = Some lv" and le: "Suc j \<le> iterations"
    and ob: "old_bound_of lib lv = Inr ob" and u: "update lib (self lv) = Inr s1"
    and b: "likelihood_bound lib s1 = Inr ob"
  from le obtain n where n: "iterations = j + Suc n"
    by (metis add_Suc_right le_iff_add add_Suc)
  have "run lib s iterations thr rtl atl vb = run_loop lib thr rtl atl vb (Suc j) (Suc n) lv"
    unfolding n by (rule run_loop_vars_at [OF v])
  then show "\<exists>lv'. run lib s iterations thr rtl atl vb = Inr (Some (Suc j), lv') \<and> self lv' = s1"
    by (simp add: loop_body_eval [OF ob u b] Let_def)
next
  assume "vars_at lib s thr rtl atl vb iterations = Some lv"
  from run_loop_vars_at [OF this, of 0]
  show "run lib s iterations thr rtl atl vb = Inr (None, lv)" by simp
next
  assume "run lib s iterations thr rtl atl vb = Inr (Some i, lv2)"
  then have "1 \<le> i \<and> i < 1 + iterations"
    unfolding run_def by (rule run_loop_result_range)
  then show "1 \<le> i" and "i \<le> iterations" by simp_all
next
  assume "run lib s iterations thr rtl atl vb = Inl e"
  then have "run_loop lib thr rtl atl vb (Suc 0) iterations
      \<lparr>self = s, old_K = None, bound = None, out = []\<rparr> = Inl e"
    by (simp add: run_def)
  from run_loop_Inl [OF _ this, of s] 
  show "\<exists>j' lv'. j' < iterations \<and> vars_at lib s thr rtl atl vb j' = Some lv'
         \<and> loop_body lib thr rtl atl vb (Suc j') lv' = Inl e"
    by auto
qed

text \<open>On the first example instance: exact convergence in pass \<open>2\<close> of \<open>3\<close>; a cap of one
  pass is exhausted; and with \<^verbatim>\<open>prune=3\<close> the E-step that closes \<^verbatim>\<open>prune\<close> raises, no
  component being left.\<close>

theorem run_returns_count_or_None_witness:
  "(\<exists>lv'. run lib1 sA 3 1 (1 / 10000) (1 / 1000) False = Inr (Some 2, lv') \<and> self lv' = sB)
   \<and> run lib1 sA 1 1 (1 / 10000) (1 / 1000) False = Inr (None, lvB)
   \<and> (1::nat) \<le> 2 \<and> (2::nat) \<le> 3
   \<and> run lib1 sA 3 3 (1 / 10000) (1 / 1000) False
        = Inl (ValueError ''zero-size array to reduction operation maximum which has no identity'')
   \<and> (\<exists>j' lv'. j' < 3 \<and> vars_at lib1 sA 3 (1 / 10000) (1 / 1000) False j' = Some lv'
         \<and> loop_body lib1 3 (1 / 10000) (1 / 1000) False (Suc j') lv'
            = Inl (ValueError ''zero-size array to reduction operation maximum which has no identity''))"
proof -
  have u: "update lib1 (self lvB) = Inr sB"
    by (simp add: lvB_def update_sB)
  note t = run_returns_count_or_None [where lib = lib1 and s = sA and thr = 1
      and rtl = "1 / 10000" and atl = "1 / 1000" and vb = False]
  from t [where j = 1 and lv = lvB and iterations = 3 and ob = 0 and ?s1.0 = sB]
  have a: "\<exists>lv'. run lib1 sA 3 1 (1 / 10000) (1 / 1000) False = Inr (Some 2, lv') \<and> self lv' = sB"
    using vars_at_1 old_bound_lvB u bound_sB by (simp del: vars_at.simps add: numeral_2_eq_2)
  from t [where lv = lvB and iterations = 1]
  have b: "run lib1 sA 1 1 (1 / 10000) (1 / 1000) False = Inr (None, lvB)"
    using vars_at_1 by (simp del: vars_at.simps)
  from a obtain lv' where r: "run lib1 sA 3 1 (1 / 10000) (1 / 1000) False = Inr (Some 2, lv')"
    by blast
  from t [where iterations = 3 and i = 2 and ?lv2.0 = lv'] r
  have c: "(1::nat) \<le> 2 \<and> (2::nat) \<le> 3" by simp
  have d: "run lib1 sA 3 3 (1 / 10000) (1 / 1000) False
      = Inl (ValueError ''zero-size array to reduction operation maximum which has no identity'')"
    using pass1_raises by (simp add: run_def numeral_3_eq_3 lvA_def)
  from run_returns_count_or_None [where lib = lib1 and s = sA and thr = 3
      and rtl = "1 / 10000" and atl = "1 / 1000" and vb = False and iterations = 3
      and e = "ValueError ''zero-size array to reduction operation maximum which has no identity''"] d
  have e: "\<exists>j' lv'. j' < 3 \<and> vars_at lib1 sA 3 (1 / 10000) (1 / 1000) False j' = Some lv'
         \<and> loop_body lib1 3 (1 / 10000) (1 / 1000) False (Suc j') lv'
            = Inl (ValueError ''zero-size array to reduction operation maximum which has no identity'')"
    by blast
  from a b c d e show ?thesis by blast
qed

text \<open>C2.  In the first pass the baseline is computed afresh from the instance as it is
  before the update.  In every later pass, with \<open>s1\<close> the instance after the update of
  the pass before and \<open>b1\<close> the bound computed on it: if \<open>K\<close> is what it was in the pass
  before, the baseline is \<open>b1\<close>, whatever a new evaluation would give; otherwise it is
  computed afresh from the instance as it is before the update.\<close>

theorem baseline_reused_iff_K_unchanged:
  "(vars_at lib s thr rtl atl vb 0 = Some lv \<longrightarrow>
      old_bound_of lib lv = likelihood_bound lib (self lv))
   \<and> (vars_at lib s thr rtl atl vb (Suc j) = Some lv \<longrightarrow>
      (\<exists>lv0 s1 b1. vars_at lib s thr rtl atl vb j = Some lv0
         \<and> update lib (self lv0) = Inr s1 \<and> likelihood_bound lib s1 = Inr b1
         \<and> K s1 = K (self lv0)
         \<and> old_bound_of lib lv =
             (if K (self lv) = K (self lv0) then Inr b1 else likelihood_bound lib (self lv))))"
proof (intro conjI impI)
  assume "vars_at lib s thr rtl atl vb 0 = Some lv"
  then show "old_bound_of lib lv = likelihood_bound lib (self lv)"
    by (auto simp: old_bound_of_def)
next
  assume "vars_at lib s thr rtl atl vb (Suc j) = Some lv"
  then obtain lv0 where v: "vars_at lib s thr rtl atl vb j = Some lv0"
    and c: "loop_body lib thr rtl atl vb (Suc j) lv0 = Inr (Continue lv)"
    by (rule vars_at_Suc)
  from c obtain ob s1 b where u: "update lib (self lv0) = Inr s1"
    and b: "likelihood_bound lib s1 = Inr b"
    and ok: "old_K lv = Some (K s1)" and bd: "bound lv = Some b"
    by (rule loop_body_Continue)
  have k: "K s1 = K (self lv0)"
    using u by (rule K_update)
  have "old_bound_of lib lv =
      (if K (self lv) = K (self lv0) then Inr b else likelihood_bound lib (self lv))"
    by (simp add: old_bound_of_def ok bd k)
  with v u b k
  show "\<exists>lv0 s1 b1. vars_at lib s thr rtl atl vb j = Some lv0
         \<and> update lib (self lv0) = Inr s1 \<and> likelihood_bound lib s1 = Inr b1
         \<and> K s1 = K (self lv0)
         \<and> old_bound_of lib lv =
             (if K (self lv) = K (self lv0) then Inr b1 else likelihood_bound lib (self lv))"
    by blast
qed


text \<open>On the first example instance \<open>K\<close> stays \<open>1\<close> and the second pass takes over the
  bound \<open>0\<close>; on the second one \<^verbatim>\<open>prune\<close> takes \<open>K\<close> from \<open>2\<close> to \<open>1\<close> and the second
  pass evaluates the bound again.\<close>

theorem baseline_reused_iff_K_unchanged_witness:
  "old_bound_of lib1 lvA = likelihood_bound lib1 sA
   \<and> vars_at lib1 sA 1 (1 / 10000) (1 / 1000) False 1 = Some lvB
   \<and> old_bound_of lib1 lvB = Inr 0
   \<and> vars_at lib1 sC 1 (1 / 10000) (1 / 1000) False 1 = Some lvE
   \<and> old_bound_of lib1 lvE = likelihood_bound lib1 sE"
proof -
  note t = baseline_reused_iff_K_unchanged [where lib = lib1 and thr = 1
      and rtl = "1 / 10000" and atl = "1 / 1000" and vb = False]
  have v0: "vars_at lib1 sA 1 (1 / 10000) (1 / 1000) False 0 = Some lvA"
    by (simp add: lvA_def)
  from t [where s = sA and lv = lvA] v0
  have a: "old_bound_of lib1 lvA = likelihood_bound lib1 sA"
    by (simp add: lvA_def)
  from t [where s = sA and lv = lvB and j = 0] vars_at_1
  obtain s1 b1 where u: "update lib1 sA = Inr s1" and l: "likelihood_bound lib1 s1 = Inr b1"
    and o: "old_bound_of lib1 lvB =
              (if K (self lvB) = K sA then Inr b1 else likelihood_bound lib1 (self lvB))"
    by (auto simp: lvA_def)
  from u have s1: "s1 = sB" by (simp add: update_sA)
  from l have b1: "b1 = 0" by (simp add: s1 bound_sB)
  have "K (self lvB) = K sA" by (simp add: lvB_def sA_def sB_def)
  with o have b: "old_bound_of lib1 lvB = Inr 0"
    by (simp add: b1)
  have v0': "vars_at lib1 sC 1 (1 / 10000) (1 / 1000) False 0 = Some lvC"
    by (simp add: lvC_def)
  from t [where s = sC and lv = lvE and j = 0] vars_at_1_sC
  obtain s2 b2 where
    o': "old_bound_of lib1 lvE =
              (if K (self lvE) = K sC then Inr b2 else likelihood_bound lib1 (self lvE))"
    by (auto simp: lvC_def)
  have "K (self lvE) \<noteq> K sC" by (simp add: lvE_def sC_def sE_def)
  with o' have c: "old_bound_of lib1 lvE = likelihood_bound lib1 sE"
    by (simp add: lvE_def)
  from a b c vars_at_1 vars_at_1_sC show ?thesis by blast
qed

subsection \<open>\<^verbatim>\<open>make_mixture\<close>\<close>

lemma mm_step_included:
  assumes "k < length (alpha s)" "k < length (nu s)" "k < length (m s)"
  shows "mm_step lib s k Wk acc =
     Inr (if included lib s (k, Wk)
          then acc\<lparr>components := components acc @ [Gauss (m s ! k) (the (mode_cov lib s k Wk))],
                   mweights := mweights acc @ [alpha s ! k - 1]\<rparr>
          else acc\<lparr>skipped := skipped acc @ [k], printed := printed acc @ [report_of s k]\<rparr>)"
  using assms
  by (auto simp: mm_step_def included_def mode_cov_def report_of_def skip_def Let_def
      split: option.splits)

lemma mm_loop_char:
  assumes "k + length Ws \<le> length (alpha s)" "k + length Ws \<le> length (nu s)"
    "k + length Ws \<le> length (m s)"
  shows "mm_loop lib s k Ws acc =
     Inr \<lparr>components = components acc
            @ map (\<lambda>(k, Wk). Gauss (m s ! k) (the (mode_cov lib s k Wk)))
                (filter (included lib s) (enumerate k Ws)),
          mweights = mweights acc
            @ map (\<lambda>(k, Wk). alpha s ! k - 1) (filter (included lib s) (enumerate k Ws)),
          skipped = skipped acc
            @ map fst (filter (\<lambda>p. \<not> included lib s p) (enumerate k Ws)),
          printed = printed acc
            @ map (\<lambda>(k, Wk). report_of s k) (filter (\<lambda>p. \<not> included lib s p) (enumerate k Ws))\<rparr>"
  using assms
proof (induction Ws arbitrary: k acc)
  case Nil
  then show ?case by simp
next
  case (Cons Wk Ws)
  from Cons.prems have k: "k < length (alpha s)" "k < length (nu s)" "k < length (m s)"
    by simp_all
  from Cons.prems have r: "Suc k + length Ws \<le> length (alpha s)"
    "Suc k + length Ws \<le> length (nu s)" "Suc k + length Ws \<le> length (m s)"
    by simp_all
  show ?case
    by (simp add: mm_step_included [OF k] bnd_def Cons.IH [OF r])
qed

lemma make_mixture_expected:
  assumes "length (W_arr s) \<le> length (alpha s)" "length (W_arr s) \<le> length (nu s)"
    "length (W_arr s) \<le> length (m s)"
  shows "make_mixture lib s = Inr (expected_mixture lib s)"
proof -
  have "mm_loop lib s 0 (W_arr s) \<lparr>components = [], mweights = [], skipped = [], printed = []\<rparr>
      = Inr \<lparr>components = map (\<lambda>(k, Wk). Gauss (m s ! k) (the (mode_cov lib s k Wk)))
                (filter (included lib s) (enumerate 0 (W_arr s))),
          mweights = map (\<lambda>(k, Wk). alpha s ! k - 1) (filter (included lib s) (enumerate 0 (W_arr s))),
          skipped = map fst (filter (\<lambda>p. \<not> included lib s p) (enumerate 0 (W_arr s))),
          printed = map (\<lambda>(k, Wk). report_of s k)
                      (filter (\<lambda>p. \<not> included lib s p) (enumerate 0 (W_arr s)))\<rparr>"
    using mm_loop_char [of 0 "W_arr s" s lib] assms by simp
  then show ?thesis
    by (simp add: make_mixture_def expected_mixture_def bnd_def Let_def)
qed


text \<open>C9.  On an instance whose arrays have \<open>K\<close> entries, \<^verbatim>\<open>make_mixture\<close> does not raise:
  it returns the mixture of exactly the included components, in their order, each with
  weight \<open>alpha_k - 1\<close>, mean \<open>m_k\<close> and covariance the inverse of \<open>(nu_k - D) W_k\<close>, and
  it prints one line for each component left out and, if there is any, the list of
  them.\<close>

theorem make_mixture_includes_iff_mode_exists:
  assumes "wf s"
  shows "make_mixture lib s = Inr (expected_mixture lib s)"
  using assms by (intro make_mixture_expected) (simp_all add: wf_def)

text \<open>The second example instance after its update, with \<open>alpha_0\<close> lowered to \<open>1/2\<close>:
  component \<open>0\<close> is reported and left out, component \<open>1\<close> is in the mixture.\<close>

theorem make_mixture_includes_iff_mode_exists_witness:
  "wf (sD\<lparr>alpha := [1 / 2, 13 / 6]\<rparr>)
   \<and> make_mixture lib1 (sD\<lparr>alpha := [1 / 2, 13 / 6]\<rparr>)
       = Inr (MixtureDensity [Gauss [4 / 13] [[228 / 65]]] [7 / 6],
              [ZeroWeight 0, SkippedComponents [0]])"
proof -
  have w: "wf (sD\<lparr>alpha := [1 / 2, 13 / 6]\<rparr>)"
    by (simp add: wf_def sD_def W_arr_def W0_arr_def)
  have "expected_mixture lib1 (sD\<lparr>alpha := [1 / 2, 13 / 6]\<rparr>)
      = (MixtureDensity [Gauss [4 / 13] [[228 / 65]]] [7 / 6],
         [ZeroWeight 0, SkippedComponents [0]])"
    by (simp add: expected_mixture_def included_def mode_cov_def report_of_def enumerate_eq_zip
          W_arr_def sD_def lib1_def mat_scale_def vec_scale_def upt_rec)
  with make_mixture_includes_iff_mode_exists [OF w, of lib1] w show ?thesis
    by simp
qed

subsection \<open>What an update writes\<close>

lemma update_W_loop_heap:
  "update_W_loop lib ks s = Inr s' \<Longrightarrow>
   \<exists>h. s' = s\<lparr>heap := h\<rparr> \<and> length h = length (heap s) \<and> (\<forall>p. p \<noteq> W s \<longrightarrow> h ! p = heap s ! p)"
proof (induction ks arbitrary: s)
  case Nil
  then have "s' = s\<lparr>heap := heap s\<rparr>" by simp
  then show ?case by blast
next
  case (Cons k ks)
  from Cons.prems obtain Wk where
    r: "update_W_loop lib ks (s\<lparr>heap := (heap s)[W s := set_row k Wk (heap s ! W s)]\<rparr>) = Inr s'"
    by (auto split: option.splits)
  from Cons.IH [OF r] obtain h where
    h: "s' = s\<lparr>heap := h\<rparr>" "length h = length (heap s)"
       "\<forall>p. p \<noteq> W s \<longrightarrow> h ! p = (heap s)[W s := set_row k Wk (heap s ! W s)] ! p"
    by auto
  then show ?case by auto
qed

lemma M_step_writes:
  assumes "M_step lib s = Inr s'"
  shows "\<exists>a b c d h. s' = s\<lparr>nu := a, alpha := b, beta := c, m := d, heap := h\<rparr>
           \<and> length h = length (heap s) \<and> (\<forall>p. p \<noteq> W s \<longrightarrow> h ! p = heap s ! p)"
proof -
  let ?s4 = "update_m (s\<lparr>nu := vec_add (nu0 s) (N_comp s), alpha := vec_add (alpha0 s) (N_comp s),
                         beta := vec_add (beta0 s) (N_comp s)\<rparr>)"
  from assms have "update_W_loop lib [0..<K s] ?s4 = Inr s'"
    by (simp add: M_step_def update_W_def Let_def update_m_def)
  from update_W_loop_heap [OF this] obtain h where
    "s' = ?s4\<lparr>heap := h\<rparr>" "length h = length (heap ?s4)" "\<forall>p. p \<noteq> W ?s4 \<longrightarrow> h ! p = heap ?s4 ! p"
    by blast
  then show ?thesis
    by (simp add: update_m_def) blast
qed

text \<open>When \<open>W\<close> and \<open>W0\<close> are different array objects, an update leaves the priors as they are.\<close>

lemma update_keeps_priors:
  assumes "update lib s = Inr s'" and "W s \<noteq> W0 s"
  shows "alpha0 s' = alpha0 s \<and> beta0 s' = beta0 s \<and> nu0 s' = nu0 s \<and> m0 s' = m0 s
         \<and> inv_W0 s' = inv_W0 s \<and> W0 s' = W0 s \<and> W0_arr s' = W0_arr s"
proof -
  from assms(1) obtain s1 where m: "M_step lib s = Inr s1" and e: "E_step lib s1 = Inr s'"
    by (auto simp: update_def bnd_def split: sum.splits)
  from M_step_writes [OF m] obtain a b c d h where
    s1: "s1 = s\<lparr>nu := a, alpha := b, beta := c, m := d, heap := h\<rparr>"
    and h: "\<forall>p. p \<noteq> W s \<longrightarrow> h ! p = heap s ! p"
    by blast
  from E_step_writes [OF e] obtain a' b' c' d' e' f' g' h' i' where
    s': "s' = s1\<lparr>expectation_det_ln_lambda := a', expectation_gauss_exponent := b',
           expectation_ln_pi := c', log_rho := d', r := e', N_comp := f', inv_N_comp := g',
           x_mean_comp := h', S := i'\<rparr>"
    by blast
  from h assms(2) have "h ! W0 s = heap s ! W0 s" by auto
  then show ?thesis
    by (simp add: s' s1 W0_arr_def)
qed

lemma sA1_parameters: "set_variational_parameters lib1
   (unassigned\<lparr>heap := [A3 1 1 [[[1]]]], data := [[0], [2]], K := 1, N := 2, dim := 1\<rparr>) False kw_shared =
   Inr (unassigned\<lparr>heap := [A3 1 1 [[[1]]]], data := [[0], [2]], K := 1, N := 2, dim := 1,
         alpha0 := [1], alpha := [1], beta0 := [1], beta := [1], nu0 := [1], nu := [1],
         m0 := [[0]], m := [[-1]], W0 := 0, inv_W0 := [[[1]]], W := 0\<rparr>)"
  by (simp add: set_variational_parameters_def unassigned_def no_kwargs_def kw1_def kw_shared_def
        set_prior_def set_posterior_def set_m0_def set_m_def set_W0_def set_W_def stack_W0_def stack_K_def
        eye_def linspace_def reshape2_def bnd_def Let_def lib1_def)

lemma sA1_first_E_step: "E_step lib1 ((initialize_output (unassigned\<lparr>heap := [A3 1 1 [[[1]]]], data := [[0], [2]], K := 1, N := 2, dim := 1,
         alpha0 := [1], alpha := [1], beta0 := [1], beta := [1], nu0 := [1], nu := [1],
         m0 := [[0]], m := [[-1]], W0 := 0, inv_W0 := [[[1]]], W := 0\<rparr>))\<lparr>expectation_gauss_exponent := zeros2 2 1\<rparr>) = Inr sA1"
  by (simp add: initialize_output_def unassigned_def eval_defs lib1_def sA_def sA1_def upt_rec)

lemma sA1_constructed:
  "GaussianInference lib1 [A3 1 1 [[[1]]]] (A2 1 [[0], [2]]) 1 None kw_shared = Inr sA1"
  using sA1_parameters sA1_first_E_step by (simp add: GaussianInference_def bnd_def numeral_2_eq_2)

lemma update_sA1: "update lib1 sA1 = Inr sB1"
  by (simp add: eval_defs lib1_def sA_def sB_def sA1_def sB1_def upt_rec)

text \<open>C10.  The constructor keeps a \<open>K \<times> D \<times> D\<close> array given as \<^verbatim>\<open>W0\<close>, and any array given
  as \<^verbatim>\<open>W\<close>, without copying it, so that one array passed for both is \<^verbatim>\<open>self.W0\<close> and
  \<^verbatim>\<open>self.W\<close> at once.  The M-step writes \<^verbatim>\<open>self.W[k]\<close> in place: after \<^verbatim>\<open>update()\<close> the
  prior \<open>W0\<close> holds the new posterior \<open>3/11\<close> instead of \<open>1\<close>, while \<open>inv_W0\<close> still is
  the inverse of the old one.\<close>

theorem update_overwrites_shared_W0:
  "GaussianInference lib1 [A3 1 1 [[[1]]]] (A2 1 [[0], [2]]) 1 None kw_shared = Inr sA1
   \<and> update lib1 sA1 = Inr sB1
   \<and> W0_arr sA1 = [[[1]]] \<and> W0_arr sB1 = [[[3 / 11]]]
   \<and> inv_W0 sA1 = [[[1]]] \<and> inv_W0 sB1 = [[[1]]]"
proof (intro conjI)
  show "GaussianInference lib1 [A3 1 1 [[[1]]]] (A2 1 [[0], [2]]) 1 None kw_shared = Inr sA1"
    by (rule sA1_constructed)
  show "update lib1 sA1 = Inr sB1"
    by (rule update_sA1)
qed (simp_all add: sA1_def sB1_def sA_def sB_def W0_arr_def)

subsection \<open>The responsibilities\<close>














subsection \<open>The effective counts\<close>





lemma fold_update_len: "length (fold (\<lambda>k xs. xs[k := f k]) ks ys) = length ys"
  by (induction ks arbitrary: ys) auto












end
